theory Spec2Isabelle
  imports Main
begin

section \<open>Data model\<close>

text \<open>
  The blog keeps four collections in a document store: articles, comments, users and
  likes. A document identifier (\<open>_id\<close>, an ObjectId) is a number; a collection is the
  list of its documents in insertion order, so that \<open>findOne\<close> returns the first match.
  Counters are whole numbers, so that a negative counter is a value the model can
  express. The store adds to a counter exactly (\<open>$inc\<close>); a document in memory
  computes with doubles (section Numbers below), and a counter read from the store is
  taken as it is stored.
\<close>

type_synonym objectId = nat

text \<open>
  \<open>models/Article.js\<close>. The fields are the schema paths the operations below read or
  write. \<open>a_commentsCount\<close> is the raw document's \<open>commentsCount\<close> field: it is not a
  path of \<open>articleSchema\<close>, and \<open>None\<close> says that the stored document does not carry it.
\<close>

record article =
  a_id :: objectId
  a_title :: string
  a_slug :: string
  a_likesCount :: int
  a_viewsCount :: int
  a_isPublished :: bool
  a_commentsCount :: "int option"

text \<open>\<open>models/Comment.js\<close>.\<close>

record comment =
  c_id :: objectId
  c_articleId :: objectId
  c_userId :: "objectId option"
  c_author :: string
  c_email :: string
  c_content :: string
  c_parentCommentId :: "objectId option"
  c_isApproved :: bool
  c_likesCount :: int
  c_isEdited :: bool
  c_editedAt :: "nat option"

text \<open>\<open>models/User.js\<close>; \<open>u_password\<close> is the stored hash.\<close>

record user =
  u_id :: objectId
  u_name :: string
  u_email :: string
  u_password :: string
  u_avatar :: "string option"
  u_role :: string
  u_isActive :: bool
  u_lastLogin :: "nat option"

text \<open>\<open>models/Like.js\<close>: the join row of the identity-bound like ledger.\<close>

record like =
  l_id :: objectId
  l_userId :: objectId
  l_articleId :: objectId

record store =
  articles :: "article list"
  comments :: "comment list"
  users :: "user list"
  likes :: "like list"

text \<open>
  What a rejected promise carries. \<open>MongoServerError code\<close> is the driver's error with
  its numeric \<open>code\<close> (11000 is the duplicate-key error of a unique index).
\<close>

datatype error =
  MongoServerError nat
  | ValidationError "string list"
  | DocumentNotFoundError
  | CastError
  | TypeError

subsection \<open>Strings\<close>

text \<open>
  Strings are byte strings. The messages of the source are Spanish; the accented letters
  are written as their UTF-8 bytes. \<open>toLowerCase\<close> maps the ASCII capitals and \<open>trim\<close>
  removes the ASCII white space at both ends.
\<close>

definition a_acute :: string where "a_acute = [CHR 0xC3, CHR 0xA1]"
definition i_acute :: string where "i_acute = [CHR 0xC3, CHR 0xAD]"
definition o_acute :: string where "o_acute = [CHR 0xC3, CHR 0xB3]"
definition n_tilde :: string where "n_tilde = [CHR 0xC3, CHR 0xB1]"

definition toLowerCase :: "string \<Rightarrow> string" where
  "toLowerCase s =
     map (\<lambda>c. let n = (of_char c :: nat) in if 65 \<le> n \<and> n \<le> 90 then char_of (n + 32) else c) s"

definition isWhiteSpace :: "char \<Rightarrow> bool" where
  "isWhiteSpace c = (let n = (of_char c :: nat) in n = 32 \<or> (9 \<le> n \<and> n \<le> 13))"

definition trim :: "string \<Rightarrow> string" where
  "trim s = rev (dropWhile isWhiteSpace (rev (dropWhile isWhiteSpace s)))"

subsection \<open>Numbers\<close>

text \<open>
  A counter of a document in memory is a JavaScript number, a double. The whole numbers
  up to \<open>2 ^ 53\<close> in magnitude are doubles; beyond, \<open>toDouble\<close> rounds a whole number to
  the nearest double, a multiple of a power of two with 53 significant bits, the tie to
  the even one. \<open>js_add\<close> is the \<open>+\<close> of the language on whole-number doubles.
  (Magnitudes beyond the largest double, where the sum is \<open>Infinity\<close>, are not
  modelled: no counter gets there by steps of 1.)
\<close>

fun bit_length :: "nat \<Rightarrow> nat" where
  "bit_length n = (if n = 0 then 0 else Suc (bit_length (n div 2)))"

declare bit_length.simps [simp del]

definition toDouble :: "int \<Rightarrow> int" where
  "toDouble x =
     (if \<bar>x\<bar> \<le> 2 ^ 53 then x
      else
        (let a = nat \<bar>x\<bar>;
             k = bit_length a - 53;
             q = a div 2 ^ k;
             r = a mod 2 ^ k;
             q' = (if 2 * r > 2 ^ k \<or> (2 * r = 2 ^ k \<and> odd q) then q + 1 else q)
         in sgn x * int (q' * 2 ^ k)))"

definition js_add :: "int \<Rightarrow> int \<Rightarrow> int" where
  "js_add x y = toDouble (x + y)"

subsection \<open>Responses\<close>

text \<open>
  \<open>res.status(n).json(body)\<close>: the status and the keys of the body. \<open>res.json(body)\<close>
  alone answers 200. A key the body does not have is \<open>None\<close>.
\<close>

record publicInfo =
  p_id :: objectId
  p_name :: string
  p_email :: string
  p_avatar :: "string option"
  p_role :: string
  p_lastLogin :: "nat option"

datatype payload =
  AuthData publicInfo string
  | ArticleLike bool int string
  | CommentLike objectId int
  | ArticleDetail article bool
  | CommentCreated comment
  | CommentModerated objectId bool

record response =
  status :: nat
  success :: bool
  message :: "string option"
  error :: "string option"
  errors :: "string list option"
  hint :: "(string \<times> string) option"
  data :: "payload option"

definition reply :: "nat \<Rightarrow> bool \<Rightarrow> string \<Rightarrow> response" where
  "reply st ok msg =
     \<lparr>status = st, success = ok, message = Some msg, error = None, errors = None,
      hint = None, data = None\<rparr>"

section \<open>Login\<close>

text \<open>\<open>userSchema.statics.findByEmail\<close>.\<close>

definition User_findByEmail :: "string \<Rightarrow> store \<Rightarrow> user option" where
  "User_findByEmail email s = find (\<lambda>u. u_email u = toLowerCase email) (users s)"

text \<open>The virtual \<open>publicInfo\<close> (without the timestamps of the document).\<close>

definition user_publicInfo :: "user \<Rightarrow> publicInfo" where
  "user_publicInfo u =
     \<lparr>p_id = u_id u, p_name = u_name u, p_email = u_email u, p_avatar = u_avatar u,
      p_role = u_role u, p_lastLogin = u_lastLogin u\<rparr>"

text \<open>
  \<open>userSchema.methods.updateLastLogin\<close>: stamps the document in memory and saves it.
  \<open>save\<close> of a loaded document writes the modified path to the stored document with
  that \<open>_id\<close>, and is rejected when there is none.
\<close>

fun update_first :: "('a \<Rightarrow> bool) \<Rightarrow> ('a \<Rightarrow> 'a) \<Rightarrow> 'a list \<Rightarrow> 'a list" where
  "update_first P f [] = []"
| "update_first P f (x # xs) = (if P x then f x # xs else x # update_first P f xs)"

definition User_updateLastLogin :: "nat \<Rightarrow> user \<Rightarrow> store \<Rightarrow> error + (user \<times> store)" where
  "User_updateLastLogin now this s =
     (let this' = this\<lparr>u_lastLogin := Some now\<rparr> in
      case find (\<lambda>u. u_id u = u_id this) (users s) of
        None \<Rightarrow> Inl DocumentNotFoundError
      | Some _ \<Rightarrow>
          Inr (this', s\<lparr>users := update_first (\<lambda>u. u_id u = u_id this)
                                  (\<lambda>u. u\<lparr>u_lastLogin := Some now\<rparr>) (users s)\<rparr>))"

text \<open>
  The body of a login request, with what the route's validators found
  (\<open>validationResult(req)\<close>; the validators are declared with the routes).
\<close>

record login_request =
  lr_validation :: "string list"
  lr_email :: string
  lr_password :: string

definition msg_credenciales_invalidas :: string where
  "msg_credenciales_invalidas = ''Credenciales inv'' @ a_acute @ ''lidas''"

definition msg_email_o_contrasena :: string where
  "msg_email_o_contrasena = ''Email o contrase'' @ n_tilde @ ''a incorrectos''"

text \<open>
  \<open>authController.login\<close>. \<open>compare candidate hash\<close> is bcrypt's comparison, \<open>sign\<close>
  is \<open>generateToken\<close> (the signing of the token by the jsonwebtoken library), and
  \<open>now\<close> is the clock read by \<open>new Date()\<close>.
\<close>

definition login ::
  "(string \<Rightarrow> string \<Rightarrow> bool) \<Rightarrow> (user \<Rightarrow> string) \<Rightarrow> nat \<Rightarrow> login_request \<Rightarrow> store
    \<Rightarrow> response \<times> store" where
  "login compare sign now req s =
     (if lr_validation req \<noteq> [] then
        ((reply 400 False (''Datos de entrada inv'' @ a_acute @ ''lidos''))
           \<lparr>errors := Some (lr_validation req)\<rparr>, s)
      else
        case User_findByEmail (lr_email req) s of
          None \<Rightarrow>
            ((reply 401 False msg_credenciales_invalidas)
               \<lparr>error := Some msg_email_o_contrasena\<rparr>, s)
        | Some u \<Rightarrow>
            if \<not> u_isActive u then
              ((reply 401 False ''Cuenta desactivada'')
                 \<lparr>error := Some ''Tu cuenta ha sido desactivada. Contacta al administrador.''\<rparr>, s)
            else if \<not> compare (lr_password req) (u_password u) then
              ((reply 401 False msg_credenciales_invalidas)
                 \<lparr>error := Some msg_email_o_contrasena\<rparr>, s)
            else
              (let token = sign u in
               case User_updateLastLogin now u s of
                 Inl _ \<Rightarrow>
                   ((reply 500 False ''Error interno del servidor'')
                      \<lparr>error := Some (''Error al iniciar sesi'' @ o_acute @ ''n'')\<rparr>, s)
               | Inr (u', s') \<Rightarrow>
                   ((reply 200 True ''Login exitoso'')
                      \<lparr>data := Some (AuthData (user_publicInfo u') token)\<rparr>, s')))"

section \<open>The store's operations on articles\<close>

definition Article_findOne_published :: "string \<Rightarrow> store \<Rightarrow> article option" where
  \<comment> \<open>\<open>Article.findOne({ slug, isPublished: true })\<close>\<close>
  "Article_findOne_published slug s = find (\<lambda>a. a_slug a = slug \<and> a_isPublished a) (articles s)"

definition Article_findOne_slug :: "string \<Rightarrow> store \<Rightarrow> article option" where
  \<comment> \<open>\<open>Article.findOne({ slug })\<close>\<close>
  "Article_findOne_slug slug s = find (\<lambda>a. a_slug a = slug) (articles s)"

definition Article_findById :: "objectId \<Rightarrow> store \<Rightarrow> article option" where
  "Article_findById i s = find (\<lambda>a. a_id a = i) (articles s)"

text \<open>
  An update document with one operator on one numeric path: \<open>{ $inc: { path: k } }\<close> or
  \<open>{ $set: { path: v } }\<close>. The store applies it to the stored document in one step.
\<close>

datatype update = Inc string int | Set string int

fun update_path :: "update \<Rightarrow> string" where
  "update_path (Inc p k) = p"
| "update_path (Set p v) = p"

text \<open>
  The paths \<open>articleSchema\<close> declares (\<open>models/Article.js\<close>, lines 8 to 77), with the
  \<open>createdAt\<close> that the \<open>timestamps\<close> option adds. The schema's options set
  \<open>timestamps\<close>, \<open>toJSON\<close> and \<open>toObject\<close> only, so the schema is in Mongoose's
  default strict mode.
\<close>

definition articleSchema_paths :: "string list" where
  "articleSchema_paths =
     [''title'', ''slug'', ''content'', ''excerpt'', ''author'', ''imagenUrl'', ''tags'',
      ''likesCount'', ''viewsCount'', ''isPublished'', ''publishedAt'', ''updatedAt'',
      ''createdAt'']"

definition articleSchema_strict :: bool where
  "articleSchema_strict = True"

text \<open>
  Mongoose casts an update against the schema before it sends it: in strict mode a path
  the schema does not declare is removed from the update.
\<close>

definition castUpdate :: "bool \<Rightarrow> string list \<Rightarrow> update \<Rightarrow> update option" where
  "castUpdate strict paths u =
     (if strict \<and> update_path u \<notin> set paths then None else Some u)"

text \<open>What the store does with an update on the numeric fields of an article document.\<close>

fun apply_update :: "update \<Rightarrow> article \<Rightarrow> article" where
  "apply_update (Inc p k) a =
     (if p = ''likesCount'' then a\<lparr>a_likesCount := a_likesCount a + k\<rparr>
      else if p = ''viewsCount'' then a\<lparr>a_viewsCount := a_viewsCount a + k\<rparr>
      else if p = ''commentsCount'' then
        a\<lparr>a_commentsCount := Some ((case a_commentsCount a of None \<Rightarrow> 0 | Some v \<Rightarrow> v) + k)\<rparr>
      else a)"
| "apply_update (Set p v) a =
     (if p = ''likesCount'' then a\<lparr>a_likesCount := v\<rparr>
      else if p = ''viewsCount'' then a\<lparr>a_viewsCount := v\<rparr>
      else if p = ''commentsCount'' then a\<lparr>a_commentsCount := Some v\<rparr>
      else a)"

text \<open>
  \<open>Article.findByIdAndUpdate(id, update, { new: true })\<close>: the update, cast against the
  schema, is applied to the stored document with that \<open>_id\<close>; the result is the
  document after the update, or \<open>None\<close> (\<open>null\<close>) when there is none. The callers
  that do not pass \<open>new: true\<close> discard the result.
\<close>

definition Article_findByIdAndUpdate :: "objectId \<Rightarrow> update \<Rightarrow> store \<Rightarrow> article option \<times> store" where
  "Article_findByIdAndUpdate i u s =
     (case castUpdate articleSchema_strict articleSchema_paths u of
        None \<Rightarrow> (Article_findById i s, s)
      | Some u' \<Rightarrow>
          (let s' = s\<lparr>articles := update_first (\<lambda>a. a_id a = i) (apply_update u') (articles s)\<rparr>
           in (Article_findById i s', s')))"

text \<open>
  \<open>articleSchema.methods.incrementLikes\<close> and \<open>decrementLikes\<close>. \<open>this\<close> is the document
  in memory, as it was when the caller read it; \<open>s\<close> is the store when the update
  arrives. Reading \<open>updated.likesCount\<close> of \<open>null\<close> throws.
\<close>

definition Article_incrementLikes :: "article \<Rightarrow> store \<Rightarrow> error + (article \<times> store)" where
  "Article_incrementLikes this s =
     (case Article_findByIdAndUpdate (a_id this) (Inc ''likesCount'' 1) s of
        (None, s') \<Rightarrow> Inl TypeError
      | (Some updated, s') \<Rightarrow> Inr (this\<lparr>a_likesCount := a_likesCount updated\<rparr>, s'))"

definition Article_decrementLikes :: "article \<Rightarrow> store \<Rightarrow> error + (article \<times> store)" where
  "Article_decrementLikes this s =
     (let decrementValue = (if a_likesCount this > 0 then - 1 else 0) in
      case Article_findByIdAndUpdate (a_id this) (Inc ''likesCount'' decrementValue) s of
        (None, s') \<Rightarrow> Inl TypeError
      | (Some updated, s') \<Rightarrow> Inr (this\<lparr>a_likesCount := a_likesCount updated\<rparr>, s'))"

section \<open>The anonymous like endpoint of articles\<close>

text \<open>A value of the JSON body, as far as \<open>===\<close> against a string literal tells values apart.\<close>

datatype json = JString string | JNumber int | JBool bool | JNull | JOther

record article_like_request =
  alr_slug :: string
  alr_action :: "json option"

definition hex_value :: "char \<Rightarrow> nat option" where
  "hex_value c =
     (let n = (of_char c :: nat) in
      if 48 \<le> n \<and> n \<le> 57 then Some (n - 48)
      else if 97 \<le> n \<and> n \<le> 102 then Some (n - 87)
      else if 65 \<le> n \<and> n \<le> 70 then Some (n - 55)
      else None)"

definition isObjectId :: "string \<Rightarrow> bool" where
  \<comment> \<open>\<open>/^[0-9a-fA-F]{24}$/.test(normalizedSlug)\<close>\<close>
  "isObjectId x = (length x = 24 \<and> list_all (\<lambda>c. hex_value c \<noteq> None) x)"

definition ObjectId_of_hex :: "string \<Rightarrow> objectId" where
  "ObjectId_of_hex x = foldl (\<lambda>n c. 16 * n + (case hex_value c of None \<Rightarrow> 0 | Some d \<Rightarrow> d)) 0 x"

definition msg_articulo_no_encontrado :: string where
  "msg_articulo_no_encontrado = ''Art'' @ i_acute @ ''culo no encontrado''"

definition msg_accion_invalida :: string where
  "msg_accion_invalida =
     ''Acci'' @ o_acute @ ''n inv'' @ a_acute @ ''lida. Use \"increment\" o \"decrement\"''"

definition internal_error :: response where
  \<comment> \<open>the catch-all of every handler; the error's text is added in development mode only\<close>
  "internal_error = reply 500 False ''Error interno del servidor''"

text \<open>
  \<open>articleController.toggleLike\<close>, lines 719 to 786: finding the article. \<open>Inl\<close> is the
  response of an early return, \<open>Inr\<close> the article the handler goes on with.
\<close>

definition toggleLike_lookup :: "string \<Rightarrow> store \<Rightarrow> response + article" where
  "toggleLike_lookup slug s =
     (let normalizedSlug = trim slug in
      if isObjectId normalizedSlug then
        (case Article_findById (ObjectId_of_hex normalizedSlug) s of
           None \<Rightarrow> Inl (reply 404 False (msg_articulo_no_encontrado @ '' por ID''))
         | Some article \<Rightarrow>
             if a_slug article \<noteq> [] then
               Inl ((reply 400 False (''Use el slug del art'' @ i_acute @ ''culo en lugar del ID''))
                      \<lparr>hint := Some (a_slug article, ''/api/articles/'' @ a_slug article @ ''/like'')\<rparr>)
             else Inr article)
      else
        (case Article_findOne_published normalizedSlug s of
           Some article \<Rightarrow> Inr article
         | None \<Rightarrow>
             (case Article_findOne_slug normalizedSlug s of
                Some articleWithoutFilter \<Rightarrow>
                  Inl (reply 404 False (msg_articulo_no_encontrado @ '' o no publicado''))
              | None \<Rightarrow> Inl (reply 404 False msg_articulo_no_encontrado))))"

text \<open>
  \<open>articleController.toggleLike\<close>. The default of the destructuring
  \<open>{ action = 'increment' } = req.body\<close> applies when the body has no \<open>action\<close> key.
  After the method the handler reads the article again for the response.
\<close>

definition article_like_ok :: "json \<Rightarrow> article \<Rightarrow> response" where
  "article_like_ok action updatedArticle =
     (reply 200 True (''Like '' @ (if action = JString ''increment'' then ''agregado'' else ''removido'')
                       @ '' exitosamente''))
       \<lparr>data := Some (ArticleLike (action = JString ''increment'') (a_likesCount updatedArticle)
                        (case action of JString x \<Rightarrow> x | _ \<Rightarrow> []))\<rparr>"

definition articleController_toggleLike :: "article_like_request \<Rightarrow> store \<Rightarrow> response \<times> store" where
  "articleController_toggleLike req s =
     (let action = (case alr_action req of None \<Rightarrow> JString ''increment'' | Some v \<Rightarrow> v) in
      case toggleLike_lookup (alr_slug req) s of
        Inl early \<Rightarrow> (early, s)
      | Inr article \<Rightarrow>
          if action = JString ''increment'' then
            (case Article_incrementLikes article s of
               Inl e \<Rightarrow> (internal_error, s)
             | Inr (_, s') \<Rightarrow>
                 (case Article_findById (a_id article) s' of
                    None \<Rightarrow> (internal_error, s')
                  | Some updatedArticle \<Rightarrow> (article_like_ok action updatedArticle, s')))
          else if action = JString ''decrement'' then
            (case Article_decrementLikes article s of
               Inl e \<Rightarrow> (internal_error, s)
             | Inr (_, s') \<Rightarrow>
                 (case Article_findById (a_id article) s' of
                    None \<Rightarrow> (internal_error, s')
                  | Some updatedArticle \<Rightarrow> (article_like_ok action updatedArticle, s')))
          else (reply 400 False msg_accion_invalida, s))"

section \<open>Comments\<close>

definition Comment_findById :: "objectId \<Rightarrow> store \<Rightarrow> comment option" where
  "Comment_findById i s = find (\<lambda>c. c_id c = i) (comments s)"

definition Comment_countDocuments :: "objectId \<Rightarrow> store \<Rightarrow> nat" where
  \<comment> \<open>\<open>Comment.countDocuments({ articleId, isApproved: true })\<close>\<close>
  "Comment_countDocuments articleId s =
     length (filter (\<lambda>c. c_articleId c = articleId \<and> c_isApproved c) (comments s))"

text \<open>
  \<open>commentSchema.post('save')\<close>: counts the approved comments of the saved comment's
  article and sends the count to the article as \<open>$set: { commentsCount }\<close>. The hook is
  awaited by \<open>save\<close>; an error inside it is logged and dropped.
\<close>

definition Comment_post_save :: "comment \<Rightarrow> store \<Rightarrow> store" where
  "Comment_post_save doc s =
     (let commentCount = Comment_countDocuments (c_articleId doc) s in
      snd (Article_findByIdAndUpdate (c_articleId doc) (Set ''commentsCount'' (int commentCount)) s))"

text \<open>
  \<open>commentSchema.post('findOneAndDelete')\<close>, and \<open>Comment.findByIdAndDelete\<close>, the
  operation that triggers it.
\<close>

definition Comment_post_findOneAndDelete :: "comment option \<Rightarrow> store \<Rightarrow> store" where
  "Comment_post_findOneAndDelete doc s =
     (case doc of
        None \<Rightarrow> s
      | Some d \<Rightarrow>
          (let commentCount = Comment_countDocuments (c_articleId d) s in
           snd (Article_findByIdAndUpdate (c_articleId d) (Set ''commentsCount'' (int commentCount)) s)))"

fun remove_first :: "('a \<Rightarrow> bool) \<Rightarrow> 'a list \<Rightarrow> 'a list" where
  "remove_first P [] = []"
| "remove_first P (x # xs) = (if P x then xs else x # remove_first P xs)"

definition Comment_findByIdAndDelete :: "objectId \<Rightarrow> store \<Rightarrow> comment option \<times> store" where
  "Comment_findByIdAndDelete i s =
     (let doc = Comment_findById i s;
          s' = s\<lparr>comments := remove_first (\<lambda>c. c_id c = i) (comments s)\<rparr>
      in (doc, Comment_post_findOneAndDelete doc s'))"

subsection \<open>The pattern of an email address\<close>

text \<open>
  The regular expression \<open>/^\w+([.-]?\w+)*@\w+([.-]?\w+)*(\.\w{2,3})+$/\<close> of the
  controller and of the schema, matched by derivatives.
\<close>

datatype rexp = Zero | One | Atom "char \<Rightarrow> bool" | Alt rexp rexp | Seq rexp rexp | Star rexp

fun nullable :: "rexp \<Rightarrow> bool" where
  "nullable Zero = False"
| "nullable One = True"
| "nullable (Atom P) = False"
| "nullable (Alt r q) = (nullable r \<or> nullable q)"
| "nullable (Seq r q) = (nullable r \<and> nullable q)"
| "nullable (Star r) = True"

fun rx_alt :: "rexp \<Rightarrow> rexp \<Rightarrow> rexp" where
  "rx_alt Zero q = q"
| "rx_alt r Zero = r"
| "rx_alt r q = Alt r q"

fun rx_seq :: "rexp \<Rightarrow> rexp \<Rightarrow> rexp" where
  "rx_seq Zero q = Zero"
| "rx_seq r Zero = Zero"
| "rx_seq One q = q"
| "rx_seq r q = Seq r q"

fun deriv :: "char \<Rightarrow> rexp \<Rightarrow> rexp" where
  "deriv c Zero = Zero"
| "deriv c One = Zero"
| "deriv c (Atom P) = (if P c then One else Zero)"
| "deriv c (Alt r q) = rx_alt (deriv c r) (deriv c q)"
| "deriv c (Seq r q) =
     (if nullable r then rx_alt (rx_seq (deriv c r) q) (deriv c q) else rx_seq (deriv c r) q)"
| "deriv c (Star r) = rx_seq (deriv c r) (Star r)"

definition matches :: "rexp \<Rightarrow> string \<Rightarrow> bool" where
  "matches r x = nullable (fold deriv x r)"

definition isWordChar :: "char \<Rightarrow> bool" where
  \<comment> \<open>\<open>\w\<close>\<close>
  "isWordChar c =
     (let n = (of_char c :: nat) in
      (48 \<le> n \<and> n \<le> 57) \<or> (65 \<le> n \<and> n \<le> 90) \<or> (97 \<le> n \<and> n \<le> 122) \<or> n = 95)"

definition rx_plus :: "rexp \<Rightarrow> rexp" where
  "rx_plus r = Seq r (Star r)"

definition rx_opt :: "rexp \<Rightarrow> rexp" where
  "rx_opt r = Alt One r"

definition rx_words :: rexp where
  \<comment> \<open>\<open>\w+([.-]?\w+)*\<close>\<close>
  "rx_words =
     Seq (rx_plus (Atom isWordChar))
         (Star (Seq (rx_opt (Atom (\<lambda>c. c = CHR ''.'' \<or> c = CHR ''-''))) (rx_plus (Atom isWordChar))))"

definition emailRegex :: rexp where
  "emailRegex =
     Seq rx_words
       (Seq (Atom (\<lambda>c. c = CHR ''@''))
          (Seq rx_words
             (rx_plus (Seq (Atom (\<lambda>c. c = CHR ''.''))
                        (Seq (Atom isWordChar) (Seq (Atom isWordChar) (rx_opt (Atom isWordChar))))))))"

subsection \<open>The validators of the schema\<close>

text \<open>
  The validators of \<open>commentSchema\<close>, in the order of its paths. \<open>save\<close> runs them on
  the document in memory: on a new document, and on every path of a document that was
  loaded from the store.
\<close>

definition Comment_validate :: "comment \<Rightarrow> string list" where
  "Comment_validate doc =
     (if c_userId doc = None \<and> c_author doc = [] then [''Path `author` is required.'']
      else if length (c_author doc) > 100 then
        [''El nombre del autor no puede exceder 100 caracteres'']
      else [])
     @ (if c_userId doc = None \<and> c_email doc = [] then [''Path `email` is required.'']
        else if c_email doc \<noteq> [] \<and> \<not> matches emailRegex (c_email doc) then
          [''Por favor ingresa un email v'' @ a_acute @ ''lido'']
        else [])
     @ (if c_content doc = [] then [''El contenido del comentario es obligatorio'']
        else if length (c_content doc) < 10 then
          [''El comentario debe tener al menos 10 caracteres'']
        else if length (c_content doc) > 1000 then
          [''El comentario no puede exceder 1000 caracteres'']
        else [])
     @ (if c_likesCount doc < 0 then [''El contador de likes no puede ser negativo''] else [])"

subsection \<open>Saving a comment\<close>

text \<open>
  \<open>save\<close> of a comment that was loaded from the store. \<open>modified\<close> are the paths whose
  value the caller has changed. \<open>save\<close> validates the document, is rejected when the
  stored document with the same \<open>_id\<close> is gone, and writes the modified paths, with the
  values the document in memory has, to that stored document; with no modified path it
  writes nothing. The post-save hook runs after it. (The pre-save hook only acts when
  \<open>content\<close> is modified, which none of the methods below does.)
\<close>

fun write_path :: "comment \<Rightarrow> string \<Rightarrow> comment \<Rightarrow> comment" where
  "write_path this p stored =
     (if p = ''likesCount'' then stored\<lparr>c_likesCount := c_likesCount this\<rparr>
      else if p = ''isApproved'' then stored\<lparr>c_isApproved := c_isApproved this\<rparr>
      else stored)"

definition Comment_save :: "string list \<Rightarrow> comment \<Rightarrow> store \<Rightarrow> error + (comment \<times> store)" where
  "Comment_save modified this s =
     (case Comment_validate this of
        e # es \<Rightarrow> Inl (ValidationError (e # es))
      | [] \<Rightarrow>
          (case Comment_findById (c_id this) s of
             None \<Rightarrow> Inl DocumentNotFoundError
           | Some _ \<Rightarrow>
               (let s' = s\<lparr>comments := update_first (\<lambda>c. c_id c = c_id this)
                                          (\<lambda>stored. fold (write_path this) modified stored)
                                          (comments s)\<rparr>
                in Inr (this, Comment_post_save this s'))))"

text \<open>
  \<open>commentSchema.methods\<close>: the like counter and the moderation flag. The methods
  assign to the document in memory; an assignment that does not change the value leaves
  the path unmodified.
\<close>

definition Comment_incrementLikes :: "comment \<Rightarrow> store \<Rightarrow> error + (comment \<times> store)" where
  "Comment_incrementLikes this s =
     (let likesCount = js_add (c_likesCount this) 1 in
      Comment_save (if likesCount = c_likesCount this then [] else [''likesCount''])
        (this\<lparr>c_likesCount := likesCount\<rparr>) s)"

definition Comment_decrementLikes :: "comment \<Rightarrow> store \<Rightarrow> error + (comment \<times> store)" where
  "Comment_decrementLikes this s =
     (if c_likesCount this > 0 then
        (let likesCount = js_add (c_likesCount this) (- 1) in
         Comment_save (if likesCount = c_likesCount this then [] else [''likesCount''])
           (this\<lparr>c_likesCount := likesCount\<rparr>) s)
      else Comment_save [] this s)"

definition Comment_approve :: "comment \<Rightarrow> store \<Rightarrow> error + (comment \<times> store)" where
  "Comment_approve this s =
     Comment_save (if c_isApproved this then [] else [''isApproved'']) (this\<lparr>c_isApproved := True\<rparr>) s"

definition Comment_disapprove :: "comment \<Rightarrow> store \<Rightarrow> error + (comment \<times> store)" where
  "Comment_disapprove this s =
     Comment_save (if c_isApproved this then [''isApproved''] else []) (this\<lparr>c_isApproved := False\<rparr>) s"

subsection \<open>The handlers of a stored comment\<close>

text \<open>
  \<open>commentController.toggleCommentLike\<close>. The identifier of the route is an ObjectId
  here: the cast of the parameter's string, which Mongoose refuses for a string that is
  not an identifier, is not part of the model.
\<close>

record comment_like_request =
  clr_commentId :: objectId
  clr_action :: "json option"

definition comment_like_ok :: "json \<Rightarrow> comment \<Rightarrow> response" where
  "comment_like_ok action updatedComment =
     (reply 200 True (''Like '' @ (if action = JString ''increment'' then ''agregado'' else ''removido'')
                       @ '' exitosamente''))
       \<lparr>data := Some (CommentLike (c_id updatedComment) (c_likesCount updatedComment))\<rparr>"

definition toggleCommentLike :: "comment_like_request \<Rightarrow> store \<Rightarrow> response \<times> store" where
  "toggleCommentLike req s =
     (let action = (case clr_action req of None \<Rightarrow> JString ''increment'' | Some v \<Rightarrow> v) in
      case Comment_findById (clr_commentId req) s of
        None \<Rightarrow> (reply 404 False ''Comentario no encontrado'', s)
      | Some comment \<Rightarrow>
          if \<not> c_isApproved comment then
            (reply 403 False ''No se puede dar like a un comentario no aprobado'', s)
          else if action = JString ''increment'' then
            (case Comment_incrementLikes comment s of
               Inl e \<Rightarrow> (internal_error, s)
             | Inr (updatedComment, s') \<Rightarrow> (comment_like_ok action updatedComment, s'))
          else if action = JString ''decrement'' then
            (case Comment_decrementLikes comment s of
               Inl e \<Rightarrow> (internal_error, s)
             | Inr (updatedComment, s') \<Rightarrow> (comment_like_ok action updatedComment, s'))
          else (reply 400 False msg_accion_invalida, s))"

text \<open>\<open>commentController.moderateComment\<close>; here \<open>action\<close> has no default.\<close>

record moderate_request =
  mr_commentId :: objectId
  mr_action :: "json option"

definition moderate_ok :: "json option \<Rightarrow> comment \<Rightarrow> response" where
  "moderate_ok action updatedComment =
     (reply 200 True (''Comentario '' @ (if action = Some (JString ''approve'') then ''aprobado''
                                          else ''desaprobado'') @ '' exitosamente''))
       \<lparr>data := Some (CommentModerated (c_id updatedComment) (c_isApproved updatedComment))\<rparr>"

definition moderateComment :: "moderate_request \<Rightarrow> store \<Rightarrow> response \<times> store" where
  "moderateComment req s =
     (case Comment_findById (mr_commentId req) s of
        None \<Rightarrow> (reply 404 False ''Comentario no encontrado'', s)
      | Some comment \<Rightarrow>
          if mr_action req = Some (JString ''approve'') then
            (case Comment_approve comment s of
               Inl e \<Rightarrow> (internal_error, s)
             | Inr (updatedComment, s') \<Rightarrow> (moderate_ok (mr_action req) updatedComment, s'))
          else if mr_action req = Some (JString ''disapprove'') then
            (case Comment_disapprove comment s of
               Inl e \<Rightarrow> (internal_error, s)
             | Inr (updatedComment, s') \<Rightarrow> (moderate_ok (mr_action req) updatedComment, s'))
          else
            (reply 400 False (''Acci'' @ o_acute @ ''n inv'' @ a_acute
                               @ ''lida. Use \"approve\" o \"disapprove\"''), s))"

section \<open>Creating a comment\<close>

subsection \<open>The handler\<close>

text \<open>
  An identifier in the body of a request: a value that Mongoose casts to an ObjectId, or
  a truthy value that its cast refuses. In \<open>comment_request\<close> a \<open>parentCommentId\<close> that
  is missing or falsy is \<open>None\<close>.
\<close>

datatype id_value = WellFormed objectId | Malformed

definition castObjectId :: "id_value \<Rightarrow> error + objectId" where
  "castObjectId p = (case p of WellFormed i \<Rightarrow> Inr i | Malformed \<Rightarrow> Inl CastError)"

record comment_request =
  cr_slug :: string
  cr_content :: "string option"
  cr_parentCommentId :: "id_value option"
  cr_author :: "string option"
  cr_email :: "string option"
  cr_user :: "user option"

definition truthy :: "string option \<Rightarrow> bool" where
  \<comment> \<open>a missing key and the empty string are falsy\<close>
  "truthy x = (case x of None \<Rightarrow> False | Some v \<Rightarrow> v \<noteq> [])"

text \<open>
  \<open>Comment.findOne({ _id: parentCommentId, articleId: article._id, isApproved: true })\<close>:
  the query is rejected with a \<open>CastError\<close> when the identifier does not cast.
\<close>

definition Comment_findOne_parent :: "id_value \<Rightarrow> objectId \<Rightarrow> store \<Rightarrow> error + comment option" where
  "Comment_findOne_parent p articleId s =
     (case castObjectId p of
        Inl e \<Rightarrow> Inl e
      | Inr i \<Rightarrow>
          Inr (find (\<lambda>c. c_id c = i \<and> c_articleId c = articleId \<and> c_isApproved c) (comments s)))"

text \<open>
  \<open>new Comment(commentData)\<close>: the setters of the schema (\<open>trim\<close>, \<open>lowercase\<close>) and its
  defaults. The \<open>_id\<close> is given when the document is saved.
\<close>

definition new_Comment ::
  "objectId \<Rightarrow> string \<Rightarrow> objectId option \<Rightarrow> objectId option \<Rightarrow> string \<Rightarrow> string \<Rightarrow> comment" where
  "new_Comment articleId content parentCommentId userId author email =
     \<lparr>c_id = 0, c_articleId = articleId, c_userId = userId, c_author = trim author,
      c_email = toLowerCase (trim email), c_content = trim content,
      c_parentCommentId = parentCommentId, c_isApproved = True, c_likesCount = 0,
      c_isEdited = False, c_editedAt = None\<rparr>"

definition new_ObjectId :: "objectId list \<Rightarrow> objectId" where
  \<comment> \<open>an identifier no document of the collection has\<close>
  "new_ObjectId used = Suc (fold max used 0)"

text \<open>\<open>save\<close> of a new comment: validation, insertion, post-save hook.\<close>

definition Comment_save_new :: "comment \<Rightarrow> store \<Rightarrow> error + (comment \<times> store)" where
  "Comment_save_new doc s =
     (case Comment_validate doc of
        [] \<Rightarrow>
          (let saved = doc\<lparr>c_id := new_ObjectId (map c_id (comments s))\<rparr>;
               s' = s\<lparr>comments := comments s @ [saved]\<rparr>
           in Inr (saved, Comment_post_save saved s'))
      | e # es \<Rightarrow> Inl (ValidationError (e # es)))"

text \<open>
  \<open>commentController.addComment\<close>, lines 330 to 357: who the comment is by. \<open>Inl\<close> is
  the response of an early return.
\<close>

definition addComment_identity :: "comment_request \<Rightarrow> response + (objectId option \<times> string \<times> string)" where
  "addComment_identity req =
     (case cr_user req of
        Some u \<Rightarrow> Inr (Some (u_id u), u_name u, u_email u)
      | None \<Rightarrow>
          if \<not> truthy (cr_author req) \<or> \<not> truthy (cr_email req) then
            Inl (reply 400 False (''Para comentarios an'' @ o_acute
                                   @ ''nimos, author y email son obligatorios''))
          else
            (case (cr_author req, cr_email req) of
               (Some author, Some email) \<Rightarrow>
                 if \<not> matches emailRegex email then
                   Inl (reply 400 False (''Formato de email inv'' @ a_acute @ ''lido''))
                 else Inr (None, trim author, trim (toLowerCase email))
             | _ \<Rightarrow> Inl internal_error))"

text \<open>
  \<open>commentController.addComment\<close>, lines 323 to 372: building and saving the comment,
  once the article and the parent are settled.
\<close>

definition addComment_create ::
  "comment_request \<Rightarrow> article \<Rightarrow> string \<Rightarrow> objectId option \<Rightarrow> store \<Rightarrow> response \<times> store" where
  "addComment_create req article content parentCommentId s =
     (case addComment_identity req of
        Inl early \<Rightarrow> (early, s)
      | Inr (userId, author, email) \<Rightarrow>
          (case Comment_save_new
                  (new_Comment (a_id article) content parentCommentId userId author email) s of
             Inl (ValidationError es) \<Rightarrow>
               ((reply 400 False (''Error de validaci'' @ o_acute @ ''n''))
                  \<lparr>errors := Some es\<rparr>, s)
           | Inl _ \<Rightarrow> (internal_error, s)
           | Inr (savedComment, s') \<Rightarrow>
               ((reply 201 True ''Comentario agregado exitosamente'')
                  \<lparr>data := Some (CommentCreated savedComment)\<rparr>, s')))"

text \<open>
  \<open>commentController.addComment\<close>. An error of the parent's query reaches the
  catch-all of the handler.
\<close>

definition addComment :: "comment_request \<Rightarrow> store \<Rightarrow> response \<times> store" where
  "addComment req s =
     (case cr_content req of
        None \<Rightarrow> (reply 400 False ''El contenido del comentario es obligatorio'', s)
      | Some content \<Rightarrow>
          if content = [] then (reply 400 False ''El contenido del comentario es obligatorio'', s)
          else
            (case Article_findOne_published (cr_slug req) s of
               None \<Rightarrow> (reply 404 False msg_articulo_no_encontrado, s)
             | Some article \<Rightarrow>
                 (case cr_parentCommentId req of
                    None \<Rightarrow> addComment_create req article content None s
                  | Some p \<Rightarrow>
                      (case Comment_findOne_parent p (a_id article) s of
                         Inl e \<Rightarrow> (internal_error, s)
                       | Inr None \<Rightarrow> (reply 404 False ''Comentario padre no encontrado'', s)
                       | Inr (Some parentComment) \<Rightarrow>
                           addComment_create req article content (Some (c_id parentComment)) s))))"

section \<open>The identity-bound like ledger\<close>

text \<open>
  The statics of \<open>likeSchema\<close>. The unique compound index on \<open>(userId, articleId)\<close>
  makes the store reject the insertion of a second row for a pair with error 11000.
\<close>

definition Like_findOne :: "objectId \<Rightarrow> objectId \<Rightarrow> store \<Rightarrow> like option" where
  "Like_findOne userId articleId s =
     find (\<lambda>l. l_userId l = userId \<and> l_articleId l = articleId) (likes s)"

definition Like_userLikedArticle :: "objectId \<Rightarrow> objectId \<Rightarrow> store \<Rightarrow> bool" where
  "Like_userLikedArticle userId articleId s = (Like_findOne userId articleId s \<noteq> None)"

definition Like_create :: "objectId \<Rightarrow> objectId \<Rightarrow> store \<Rightarrow> error + (like \<times> store)" where
  "Like_create userId articleId s =
     (if list_ex (\<lambda>l. l_userId l = userId \<and> l_articleId l = articleId) (likes s) then
        Inl (MongoServerError 11000)
      else
        (let l = \<lparr>l_id = new_ObjectId (map l_id (likes s)), l_userId = userId,
                  l_articleId = articleId\<rparr>
         in Inr (l, s\<lparr>likes := likes s @ [l]\<rparr>)))"

definition Like_deleteOne_id :: "objectId \<Rightarrow> store \<Rightarrow> store" where
  \<comment> \<open>\<open>deleteOne({ _id })\<close>\<close>
  "Like_deleteOne_id i s = s\<lparr>likes := remove_first (\<lambda>l. l_id l = i) (likes s)\<rparr>"

record like_result =
  res_success :: bool
  res_action :: "string option"
  res_like :: "like option"
  res_message :: string
  res_liked :: "bool option"

definition msg_ya_diste_like :: string where
  "msg_ya_diste_like = ''Ya diste like a este art'' @ i_acute @ ''culo''"

text \<open>
  Both statics read the ledger, wait for the answer, and then write. \<open>env\<close> is what
  other requests do to the store between the read and the write; it is the identity
  when the call runs alone.
\<close>

definition Like_addLike ::
  "(store \<Rightarrow> store) \<Rightarrow> objectId \<Rightarrow> objectId \<Rightarrow> store \<Rightarrow> error + (like_result \<times> store)" where
  "Like_addLike env userId articleId s =
     (case Like_findOne userId articleId s of
        Some existingLike \<Rightarrow>
          Inr (\<lparr>res_success = False, res_action = None, res_like = None,
                res_message = msg_ya_diste_like, res_liked = None\<rparr>, s)
      | None \<Rightarrow>
          (case Like_create userId articleId (env s) of
             Inr (l, s') \<Rightarrow>
               Inr (\<lparr>res_success = True, res_action = None, res_like = Some l,
                     res_message = ''Like agregado exitosamente'', res_liked = None\<rparr>, s')
           | Inl e \<Rightarrow>
               if e = MongoServerError 11000 then
                 Inr (\<lparr>res_success = False, res_action = None, res_like = None,
                       res_message = msg_ya_diste_like, res_liked = None\<rparr>, env s)
               else Inl e))"

definition Like_toggleLike ::
  "(store \<Rightarrow> store) \<Rightarrow> objectId \<Rightarrow> objectId \<Rightarrow> store \<Rightarrow> error + (like_result \<times> store)" where
  "Like_toggleLike env userId articleId s =
     (case Like_findOne userId articleId s of
        Some existingLike \<Rightarrow>
          Inr (\<lparr>res_success = True, res_action = Some ''removed'', res_like = None,
                res_message = ''Like eliminado exitosamente'', res_liked = Some False\<rparr>,
               Like_deleteOne_id (l_id existingLike) (env s))
      | None \<Rightarrow>
          (case Like_create userId articleId (env s) of
             Inr (l, s') \<Rightarrow>
               Inr (\<lparr>res_success = True, res_action = Some ''added'', res_like = Some l,
                     res_message = ''Like agregado exitosamente'', res_liked = Some True\<rparr>, s')
           | Inl e \<Rightarrow> Inl e))"

definition alone :: "store \<Rightarrow> store" where
  "alone s = s"

section \<open>The article detail\<close>



section \<open>Sequences of anonymous like requests\<close>




text \<open>
  Shorthands for stating what a like request does to the store: the store with the like
  counter of an article changed by \<open>k\<close>, with the like counter of a comment set to
  \<open>v\<close>, the like counter stored under an identifier, and the store after a like request
  with a given action.
\<close>

definition bump :: "objectId \<Rightarrow> int \<Rightarrow> store \<Rightarrow> store" where
  "bump i k s = s\<lparr>articles := update_first (\<lambda>a. a_id a = i)
                        (\<lambda>a. a\<lparr>a_likesCount := a_likesCount a + k\<rparr>) (articles s)\<rparr>"

definition set_comment_likes :: "objectId \<Rightarrow> int \<Rightarrow> store \<Rightarrow> store" where
  "set_comment_likes i v s = s\<lparr>comments := update_first (\<lambda>c. c_id c = i)
                        (\<lambda>c. c\<lparr>c_likesCount := v\<rparr>) (comments s)\<rparr>"

definition article_likes :: "objectId \<Rightarrow> store \<Rightarrow> int option" where
  "article_likes i s = map_option a_likesCount (Article_findById i s)"

definition comment_likes :: "objectId \<Rightarrow> store \<Rightarrow> int option" where
  "comment_likes i s = map_option c_likesCount (Comment_findById i s)"





text \<open>The like ledger under its indexes: unique \<open>_id\<close>, unique \<open>(userId, articleId)\<close>.\<close>

definition ledger_ok :: "store \<Rightarrow> bool" where
  "ledger_ok s =
     (distinct (map l_id (likes s)) \<and> distinct (map (\<lambda>l. (l_userId l, l_articleId l)) (likes s)))"

text \<open>
  Another request that inserts the like of \<open>userId\<close> for \<open>articleId\<close> while a call is
  waiting for the store.
\<close>

definition concurrent_like :: "objectId \<Rightarrow> objectId \<Rightarrow> store \<Rightarrow> store" where
  "concurrent_like userId articleId s =
     (case Like_create userId articleId s of Inr (l, s') \<Rightarrow> s' | Inl e \<Rightarrow> s)"

section \<open>Two requests on the same target\<close>

text \<open>
  A handler reads its target, waits for the store, and calls a method of the document it
  read. Here two requests for the same target both read before either method runs, so
  the second method works on a document that the first write has made stale: two
  increments of a comment, two increments of an article, two decrements of an article.
  The result is the store after both, or \<open>None\<close> when a read finds nothing or a method
  is rejected.
\<close>

definition racing_comment_likes :: "objectId \<Rightarrow> store \<Rightarrow> store option" where
  "racing_comment_likes i s =
     (case (Comment_findById i s, Comment_findById i s) of
        (Some read1, Some read2) \<Rightarrow>
          (case Comment_incrementLikes read1 s of
             Inl e \<Rightarrow> None
           | Inr (_, s1) \<Rightarrow>
               (case Comment_incrementLikes read2 s1 of
                  Inl e \<Rightarrow> None
                | Inr (_, s2) \<Rightarrow> Some s2))
      | _ \<Rightarrow> None)"

definition racing_article_likes :: "objectId \<Rightarrow> store \<Rightarrow> store option" where
  "racing_article_likes i s =
     (case (Article_findById i s, Article_findById i s) of
        (Some read1, Some read2) \<Rightarrow>
          (case Article_incrementLikes read1 s of
             Inl e \<Rightarrow> None
           | Inr (_, s1) \<Rightarrow>
               (case Article_incrementLikes read2 s1 of
                  Inl e \<Rightarrow> None
                | Inr (_, s2) \<Rightarrow> Some s2))
      | _ \<Rightarrow> None)"

definition racing_article_unlikes :: "objectId \<Rightarrow> store \<Rightarrow> store option" where
  "racing_article_unlikes i s =
     (case (Article_findById i s, Article_findById i s) of
        (Some read1, Some read2) \<Rightarrow>
          (case Article_decrementLikes read1 s of
             Inl e \<Rightarrow> None
           | Inr (_, s1) \<Rightarrow>
               (case Article_decrementLikes read2 s1 of
                  Inl e \<Rightarrow> None
                | Inr (_, s2) \<Rightarrow> Some s2))
      | _ \<Rightarrow> None)"

section \<open>Example data\<close>

definition ex_article1 :: article where
  "ex_article1 =
     \<lparr>a_id = 1, a_title = ''Hola mundo'', a_slug = ''test-slug'', a_likesCount = 0,
      a_viewsCount = 0, a_isPublished = True, a_commentsCount = None\<rparr>"

definition ex_article2 :: article where
  "ex_article2 =
     \<lparr>a_id = 2, a_title = ''Otro'', a_slug = ''otro'', a_likesCount = 3,
      a_viewsCount = 7, a_isPublished = True, a_commentsCount = None\<rparr>"

definition ex_comment1 :: comment where
  "ex_comment1 =
     \<lparr>c_id = 1, c_articleId = 1, c_userId = None, c_author = ''Ana'',
      c_email = ''ana@x.com'', c_content = ''Un comentario de prueba'',
      c_parentCommentId = None, c_isApproved = True, c_likesCount = 0,
      c_isEdited = False, c_editedAt = None\<rparr>"

definition ex_comment2 :: comment where
  "ex_comment2 =
     \<lparr>c_id = 2, c_articleId = 2, c_userId = None, c_author = ''Bob'',
      c_email = ''bob@x.com'', c_content = ''Otro comentario de prueba'',
      c_parentCommentId = None, c_isApproved = False, c_likesCount = 2,
      c_isEdited = False, c_editedAt = None\<rparr>"

definition ex_ana :: user where
  "ex_ana =
     \<lparr>u_id = 1, u_name = ''Ana'', u_email = ''ana@x.com'', u_password = ''terces'',
      u_avatar = None, u_role = ''user'', u_isActive = True, u_lastLogin = None\<rparr>"

definition ex_bob :: user where
  "ex_bob =
     \<lparr>u_id = 2, u_name = ''Bob'', u_email = ''bob@x.com'', u_password = ''drowssap'',
      u_avatar = None, u_role = ''user'', u_isActive = False, u_lastLogin = None\<rparr>"

definition ex_store :: store where
  "ex_store =
     \<lparr>articles = [ex_article1, ex_article2], comments = [ex_comment1, ex_comment2],
      users = [ex_ana, ex_bob], likes = [\<lparr>l_id = 1, l_userId = 1, l_articleId = 1\<rparr>]\<rparr>"




definition ex_compare :: "string \<Rightarrow> string \<Rightarrow> bool" where
  \<comment> \<open>a stand-in for bcrypt in the examples: the hash of a password is its reversal\<close>
  "ex_compare candidate hash = (hash = rev candidate)"

definition ex_sign :: "user \<Rightarrow> string" where
  "ex_sign u = ''token-of-'' @ u_email u"

definition ex_login :: "string \<Rightarrow> string \<Rightarrow> login_request" where
  "ex_login email password = \<lparr>lr_validation = [], lr_email = email, lr_password = password\<rparr>"

definition ex_reply :: "string option \<Rightarrow> id_value \<Rightarrow> comment_request" where
  "ex_reply content parent =
     \<lparr>cr_slug = ''test-slug'', cr_content = content, cr_parentCommentId = Some parent,
      cr_author = Some ''Eva'', cr_email = Some ''eva@x.com'', cr_user = None\<rparr>"

definition ex_new_comment :: comment_request where
  "ex_new_comment =
     \<lparr>cr_slug = ''test-slug'', cr_content = Some ''Un segundo comentario'',
      cr_parentCommentId = None, cr_author = Some ''Eva'', cr_email = Some ''Eva@x.com'',
      cr_user = None\<rparr>"

section \<open>Properties\<close>

subsection \<open>Lists, lookups and updates\<close>

lemma find_update_first_same:
  "(\<And>x. g (f x) = g x) \<Longrightarrow>
   find (\<lambda>x. g x = i) (update_first (\<lambda>x. g x = i) f xs) = map_option f (find (\<lambda>x. g x = i) xs)"
  by (induction xs) auto

lemma find_update_first_other:
  "(\<And>x. g (f x) = g x) \<Longrightarrow> j \<noteq> i \<Longrightarrow>
   find (\<lambda>x. g x = j) (update_first (\<lambda>x. g x = i) f xs) = find (\<lambda>x. g x = j) xs"
  by (induction xs) auto


lemma find_by_id_distinct:
  "find P xs = Some a \<Longrightarrow> distinct (map g xs) \<Longrightarrow> find (\<lambda>x. g x = g a) xs = Some a"
proof (induction xs)
  case Nil
  then show ?case by simp
next
  case (Cons x xs)
  show ?case
  proof (cases "P x")
    case True
    with Cons.prems show ?thesis by simp
  next
    case False
    with Cons.prems have f: "find P xs = Some a" and d: "distinct (map g xs)" and n: "g x \<notin> g ` set xs"
      by simp_all
    from f have "a \<in> set xs" by (auto simp: find_Some_iff)
    with n have "g x \<noteq> g a" by auto
    with Cons.IH [OF f d] show ?thesis by simp
  qed
qed

lemma update_first_absent:
  "find P xs = None \<Longrightarrow> update_first P f xs = xs"
  by (induction xs) (auto split: if_splits)


lemma update_first_same:
  "(\<And>x. x \<in> set xs \<Longrightarrow> P x \<Longrightarrow> f x = x) \<Longrightarrow> update_first P f xs = xs"
  by (induction xs) auto

lemma apply_update_Inc_likes:
  "apply_update (Inc ''likesCount'' k) = (\<lambda>a. a\<lparr>a_likesCount := a_likesCount a + k\<rparr>)"
  by (rule ext) simp


lemma findByIdAndUpdate_likes:
  "Article_findByIdAndUpdate i (Inc ''likesCount'' k) s =
     (map_option (\<lambda>a. a\<lparr>a_likesCount := a_likesCount a + k\<rparr>) (Article_findById i s),
      s\<lparr>articles := update_first (\<lambda>a. a_id a = i)
                        (\<lambda>a. a\<lparr>a_likesCount := a_likesCount a + k\<rparr>) (articles s)\<rparr>)"
  by (simp add: Article_findByIdAndUpdate_def castUpdate_def articleSchema_paths_def
      Article_findById_def apply_update_Inc_likes find_update_first_same Let_def)


lemma findByIdAndUpdate_commentsCount:
  "Article_findByIdAndUpdate i (Set ''commentsCount'' v) s = (Article_findById i s, s)"
  by (simp add: Article_findByIdAndUpdate_def castUpdate_def articleSchema_paths_def
      articleSchema_strict_def)

lemma find_Some_mem:
  "find P xs = Some a \<Longrightarrow> a \<in> set xs"
  by (induction xs) (auto split: if_splits)










subsection \<open>Numbers\<close>

lemma toDouble_exact: "\<bar>x\<bar> \<le> 2 ^ 53 \<Longrightarrow> toDouble x = x"
  by (simp add: toDouble_def)

lemma js_add_exact: "\<bar>x + y\<bar> \<le> 2 ^ 53 \<Longrightarrow> js_add x y = x + y"
  by (simp add: js_add_def toDouble_exact)

lemma js_add_succ: "0 \<le> n \<Longrightarrow> n < 2 ^ 53 \<Longrightarrow> js_add n 1 = n + 1"
  by (rule js_add_exact) simp




subsection \<open>Saving a like counter\<close>

lemma Comment_post_save_noop: "Comment_post_save doc s = s"
  by (simp add: Comment_post_save_def findByIdAndUpdate_commentsCount)

lemma write_path_likes:
  "write_path this ''likesCount'' = (\<lambda>c. c\<lparr>c_likesCount := c_likesCount this\<rparr>)"
  by (rule ext) simp


lemma Comment_validate_nonneg: "Comment_validate c = [] \<Longrightarrow> 0 \<le> c_likesCount c"
  by (auto simp: Comment_validate_def split: if_splits)

lemma Comment_validate_set_likes:
  "Comment_validate c = [] \<Longrightarrow> 0 \<le> v \<Longrightarrow> Comment_validate (c\<lparr>c_likesCount := v\<rparr>) = []"
  by (auto simp: Comment_validate_def split: if_splits)


lemma Comment_findById_id:
  "Comment_findById i s = Some c \<Longrightarrow> c_id c = i"
  by (auto simp: Comment_findById_def find_Some_iff)

lemma Comment_save_unmodified:
  assumes "Comment_findById (c_id this) s = Some c"
  shows "Comment_save [] this s
         = (case Comment_validate this of
              [] \<Rightarrow> Inr (this, s)
            | e # es \<Rightarrow> Inl (ValidationError (e # es)))"
proof -
  have "update_first (\<lambda>c. c_id c = c_id this) id (comments s) = comments s"
    by (rule update_first_same) simp
  with assms show ?thesis
    by (simp add: Comment_save_def Comment_post_save_noop split: list.splits)
qed

lemma Comment_save_likesCount:
  assumes "Comment_findById (c_id this) s = Some c"
  shows "Comment_save [''likesCount''] this s
         = (case Comment_validate this of
              [] \<Rightarrow> Inr (this, set_comment_likes (c_id this) (c_likesCount this) s)
            | e # es \<Rightarrow> Inl (ValidationError (e # es)))"
  using assms
  by (simp add: Comment_save_def Comment_post_save_noop set_comment_likes_def write_path_likes
      del: write_path.simps split: list.splits)


text \<open>
  What the two methods do when the stored document is there: \<open>this\<close> may be older than
  the stored document.
\<close>

lemma Comment_incrementLikes_found:
  assumes "Comment_findById (c_id this) s = Some c"
  shows "Comment_incrementLikes this s
         = (case Comment_validate (this\<lparr>c_likesCount := js_add (c_likesCount this) 1\<rparr>) of
              [] \<Rightarrow> Inr (this\<lparr>c_likesCount := js_add (c_likesCount this) 1\<rparr>,
                         if js_add (c_likesCount this) 1 = c_likesCount this then s
                         else set_comment_likes (c_id this) (js_add (c_likesCount this) 1) s)
            | e # es \<Rightarrow> Inl (ValidationError (e # es)))"
  using assms
  by (simp add: Comment_incrementLikes_def Let_def Comment_save_unmodified [where c = c]
      Comment_save_likesCount [where c = c] split: list.splits)




lemma findById_set_comment_likes:
  "Comment_findById j (set_comment_likes i v s)
   = (if j = i then map_option (\<lambda>c. c\<lparr>c_likesCount := v\<rparr>) (Comment_findById i s)
      else Comment_findById j s)"
  by (simp add: Comment_findById_def set_comment_likes_def find_update_first_same
      find_update_first_other)





lemma article_likes_bump:
  "article_likes j (bump i k s)
   = (if j = i then map_option (\<lambda>n. n + k) (article_likes i s) else article_likes j s)"
  by (simp add: article_likes_def bump_def Article_findById_def find_update_first_same
      find_update_first_other option.map_comp comp_def)

lemma comment_likes_set:
  "comment_likes j (set_comment_likes i v s)
   = (if j = i then map_option (\<lambda>_. v) (comment_likes i s) else comment_likes j s)"
  by (simp add: comment_likes_def findById_set_comment_likes option.map_comp comp_def)










subsection \<open>The example store\<close>




lemma ex_findById_comment1: "Comment_findById 1 ex_store = Some ex_comment1"
  by (simp add: Comment_findById_def ex_store_def ex_comment1_def)

lemma ex_article_likes: "article_likes 1 ex_store = Some 0"
  by (simp add: article_likes_def Article_findById_def ex_store_def ex_article1_def)

lemma ex_comment_likes: "comment_likes 1 ex_store = Some 0"
  by (simp add: comment_likes_def Comment_findById_def ex_store_def ex_comment1_def)

lemma ex_findOne_test_slug: "Article_findOne_published ''test-slug'' ex_store = Some ex_article1"
  by (simp add: Article_findOne_published_def ex_store_def ex_article1_def)


lemma ex_email_ana: "matches emailRegex ''ana@x.com''"
  by code_simp

lemma ex_comment1_valid: "Comment_validate ex_comment1 = []"
  by (simp add: Comment_validate_def ex_comment1_def ex_email_ana)


lemma ex_findById_article1: "Article_findById 1 ex_store = Some ex_article1"
  by (simp add: Article_findById_def ex_store_def ex_article1_def)

lemma ex_findById_article2: "Article_findById 2 ex_store = Some ex_article2"
  by (simp add: Article_findById_def ex_store_def ex_article1_def ex_article2_def)

subsection \<open>Two requests that read before either writes\<close>

lemma Article_findById_id:
  "Article_findById i s = Some a \<Longrightarrow> a_id a = i"
  by (auto simp: Article_findById_def find_Some_iff)

lemma Article_incrementLikes_found:
  assumes "Article_findById (a_id this) s = Some a"
  shows "Article_incrementLikes this s
         = Inr (this\<lparr>a_likesCount := a_likesCount a + 1\<rparr>, bump (a_id this) 1 s)"
  using assms by (simp add: Article_incrementLikes_def findByIdAndUpdate_likes bump_def)

lemma Article_decrementLikes_found:
  assumes "Article_findById (a_id this) s = Some a"
  shows "Article_decrementLikes this s
         = Inr (this\<lparr>a_likesCount := a_likesCount a + (if a_likesCount this > 0 then - 1 else 0)\<rparr>,
                bump (a_id this) (if a_likesCount this > 0 then - 1 else 0) s)"
  using assms by (simp add: Article_decrementLikes_def findByIdAndUpdate_likes bump_def Let_def)

lemma findById_bump:
  "Article_findById j (bump i k s)
   = (if j = i then map_option (\<lambda>a. a\<lparr>a_likesCount := a_likesCount a + k\<rparr>) (Article_findById i s)
      else Article_findById j s)"
  by (simp add: Article_findById_def bump_def find_update_first_same find_update_first_other)

text \<open>
  Two increments of the same comment that both read before either writes leave the
  counter at \<open>N + 1\<close>: the second \<open>save\<close> writes the value computed from the stale
  document. Two such increments of an article leave \<open>N + 2\<close>.
\<close>

lemma racing_comment_likes_loses_one:
  assumes "Comment_findById i s = Some c" and "Comment_validate c = []"
    and "c_likesCount c < 2 ^ 53"
  shows "\<exists>s2. racing_comment_likes i s = Some s2 \<and> comment_likes i s2 = Some (c_likesCount c + 1)"
proof -
  from assms(1) have i: "c_id c = i" by (rule Comment_findById_id)
  from assms(2) have nn: "0 \<le> c_likesCount c" by (rule Comment_validate_nonneg)
  have up: "js_add (c_likesCount c) 1 = c_likesCount c + 1"
    using nn assms(3) by (rule js_add_succ)
  have v: "Comment_validate (c\<lparr>c_likesCount := c_likesCount c + 1\<rparr>) = []"
    using assms(2) nn by (intro Comment_validate_set_likes) simp_all
  have l: "comment_likes i s = Some (c_likesCount c)"
    using assms(1) by (simp add: comment_likes_def)
  have f0: "Comment_findById (c_id c) s = Some c"
    using assms(1) i by simp
  have first: "Comment_incrementLikes c s
               = Inr (c\<lparr>c_likesCount := c_likesCount c + 1\<rparr>,
                      set_comment_likes i (c_likesCount c + 1) s)"
    by (simp add: Comment_incrementLikes_found [OF f0] up v i)
  have f1: "Comment_findById (c_id c) (set_comment_likes i (c_likesCount c + 1) s)
            = Some (c\<lparr>c_likesCount := c_likesCount c + 1\<rparr>)"
    using assms(1) by (simp add: findById_set_comment_likes i)
  have second: "Comment_incrementLikes c (set_comment_likes i (c_likesCount c + 1) s)
               = Inr (c\<lparr>c_likesCount := c_likesCount c + 1\<rparr>,
                      set_comment_likes i (c_likesCount c + 1)
                        (set_comment_likes i (c_likesCount c + 1) s))"
    by (simp add: Comment_incrementLikes_found [OF f1] up v i)
  show ?thesis
    using assms(1) l
    by (simp add: racing_comment_likes_def first second comment_likes_set)
qed

lemma racing_article_likes_keeps_both:
  assumes "Article_findById i s = Some a"
  shows "\<exists>s2. racing_article_likes i s = Some s2 \<and> article_likes i s2 = Some (a_likesCount a + 2)"
proof -
  from assms have i: "a_id a = i" by (rule Article_findById_id)
  have l: "article_likes i s = Some (a_likesCount a)"
    using assms by (simp add: article_likes_def)
  show ?thesis
    using assms l
    by (simp add: racing_article_likes_def Article_incrementLikes_found i findById_bump
        article_likes_bump)
qed

text \<open>
  Two decrements of an article with one like, each deciding on the count it read, take
  the stored counter to -1.
\<close>

lemma ex_racing_unlikes:
  "article_likes 1 (bump 1 1 ex_store) = Some 1"
  "map_option (article_likes 1) (racing_article_unlikes 1 (bump 1 1 ex_store)) = Some (Some (- 1))"
proof -
  have a0: "a_likesCount ex_article1 = 0" and i1: "a_id ex_article1 = 1"
    by (simp_all add: ex_article1_def)
  have r: "Article_findById 1 (bump 1 1 ex_store) = Some (ex_article1\<lparr>a_likesCount := 1\<rparr>)"
    using ex_findById_article1 by (simp add: findById_bump a0)
  show "article_likes 1 (bump 1 1 ex_store) = Some 1"
    using ex_article_likes by (simp add: article_likes_bump)
  show "map_option (article_likes 1) (racing_article_unlikes 1 (bump 1 1 ex_store))
           = Some (Some (- 1))"
    using r ex_findById_article1
    by (simp add: racing_article_unlikes_def Article_decrementLikes_found i1 findById_bump
        article_likes_bump article_likes_def a0)
qed

subsection \<open>A counter at \<open>2 ^ 53\<close> and a comment that fails validation\<close>








subsection \<open>The anonymous like counter\<close>



subsection \<open>The identity-bound toggle\<close>

lemma fold_max_ge: "m \<le> fold max xs (m::nat)"
  by (induction xs arbitrary: m) (auto intro: order_trans [OF max.cobounded2])

lemma fold_max_mem: "i \<in> set xs \<Longrightarrow> i \<le> fold max xs (m::nat)"
proof (induction xs arbitrary: m)
  case Nil
  then show ?case by simp
next
  case (Cons x xs)
  show ?case
  proof (cases "i = x")
    case True
    have "x \<le> max x m" by simp
    also have "\<dots> \<le> fold max xs (max x m)" by (rule fold_max_ge)
    finally show ?thesis using True by simp
  next
    case False
    with Cons show ?thesis by simp
  qed
qed

lemma new_ObjectId_fresh: "new_ObjectId used \<notin> set used"
proof
  assume "new_ObjectId used \<in> set used"
  then have "new_ObjectId used \<le> fold max used 0" by (rule fold_max_mem)
  then show False by (simp add: new_ObjectId_def)
qed

lemma set_remove_first: "set (remove_first P xs) \<subseteq> set xs"
  by (induction xs) auto

lemma distinct_map_remove_first:
  "distinct (map f xs) \<Longrightarrow> distinct (map f (remove_first P xs))"
proof (induction xs)
  case Nil
  then show ?case by simp
next
  case (Cons x xs)
  have "f ` set (remove_first P xs) \<subseteq> f ` set xs"
    using set_remove_first [of P xs] by blast
  with Cons show ?case by auto
qed

lemma length_remove_first:
  "find P xs = Some r \<Longrightarrow> length (remove_first P xs) + 1 = length xs"
  by (induction xs) (auto split: if_splits)

lemma find_remove_first_none:
  assumes "find Q xs = Some r" and "distinct (map g xs)" and "distinct (map h xs)"
    and "\<And>x. Q x \<longleftrightarrow> h x = p"
  shows "find Q (remove_first (\<lambda>x. g x = g r) xs) = None"
  using assms(1-3)
proof (induction xs)
  case Nil
  then show ?case by simp
next
  case (Cons x xs)
  show ?case
  proof (cases "Q x")
    case True
    with Cons.prems have "r = x" and "h x \<notin> h ` set xs" by simp_all
    with True assms(4) have "\<forall>y\<in>set xs. \<not> Q y" by (auto simp: image_iff)
    then have "find Q xs = None" by (simp add: find_None_iff)
    with \<open>r = x\<close> show ?thesis by simp
  next
    case False
    with Cons.prems have f: "find Q xs = Some r" and "g x \<notin> g ` set xs" by simp_all
    from f have "r \<in> set xs" by (rule find_Some_mem)
    with \<open>g x \<notin> g ` set xs\<close> have "g x \<noteq> g r" by auto
    with False Cons.IH [OF f] Cons.prems show ?thesis by simp
  qed
qed

lemma Like_create_new:
  assumes "Like_findOne u a s = None"
  shows "Like_create u a s
         = Inr (\<lparr>l_id = new_ObjectId (map l_id (likes s)), l_userId = u, l_articleId = a\<rparr>,
                s\<lparr>likes := likes s @ [\<lparr>l_id = new_ObjectId (map l_id (likes s)), l_userId = u,
                                          l_articleId = a\<rparr>]\<rparr>)"
  using assms
  by (simp add: Like_create_def Like_findOne_def find_None_iff list_ex_iff Let_def)

lemma Like_create_duplicate:
  assumes "Like_findOne u a s \<noteq> None"
  shows "Like_create u a s = Inl (MongoServerError 11000)"
  using assms
  by (auto simp: Like_create_def Like_findOne_def find_None_iff list_ex_iff)

lemma Like_create_ledger_ok:
  assumes "ledger_ok s" and "Like_create u a s = Inr (l, s')"
  shows "ledger_ok s' \<and> Like_findOne u a s' \<noteq> None \<and> length (likes s') = length (likes s) + 1"
proof -
  from assms(2) have n: "Like_findOne u a s = None"
    by (cases "Like_findOne u a s") (simp_all add: Like_create_duplicate)
  then have absent: "(u, a) \<notin> (\<lambda>l. (l_userId l, l_articleId l)) ` set (likes s)"
    by (auto simp: Like_findOne_def find_None_iff)
  from assms(2) have s': "s' = s\<lparr>likes := likes s @ [\<lparr>l_id = new_ObjectId (map l_id (likes s)),
        l_userId = u, l_articleId = a\<rparr>]\<rparr>"
    by (auto simp: Like_create_new [OF n])
  have fresh: "new_ObjectId (map l_id (likes s)) \<notin> l_id ` set (likes s)"
    using new_ObjectId_fresh [of "map l_id (likes s)"] by simp
  let ?l = "\<lparr>l_id = new_ObjectId (map l_id (likes s)), l_userId = u, l_articleId = a\<rparr>"
  have "?l \<in> set (likes s') \<and> l_userId ?l = u \<and> l_articleId ?l = a"
    by (simp add: s')
  then have found: "Like_findOne u a s' \<noteq> None"
    unfolding Like_findOne_def find_None_iff by blast
  have "ledger_ok s'" and "length (likes s') = length (likes s) + 1"
    using assms(1) absent fresh by (simp_all add: s' ledger_ok_def)
  with found show ?thesis by simp
qed

lemma Like_deleteOne_ledger_ok:
  "ledger_ok s \<Longrightarrow> ledger_ok (Like_deleteOne_id i s)"
  by (simp add: ledger_ok_def Like_deleteOne_id_def distinct_map_remove_first)

lemma toggle_when_liked:
  assumes "ledger_ok s" and "Like_findOne u a s = Some l"
  shows "Like_toggleLike alone u a s
         = Inr (\<lparr>res_success = True, res_action = Some ''removed'', res_like = None,
                 res_message = ''Like eliminado exitosamente'', res_liked = Some False\<rparr>,
                Like_deleteOne_id (l_id l) s)"
    and "Like_findOne u a (Like_deleteOne_id (l_id l) s) = None"
    and "length (likes (Like_deleteOne_id (l_id l) s)) + 1 = length (likes s)"
proof -
  show "Like_toggleLike alone u a s
         = Inr (\<lparr>res_success = True, res_action = Some ''removed'', res_like = None,
                 res_message = ''Like eliminado exitosamente'', res_liked = Some False\<rparr>,
                Like_deleteOne_id (l_id l) s)"
    using assms(2) by (simp add: Like_toggleLike_def alone_def)
  have byid: "find (\<lambda>x. l_id x = l_id l) (likes s) = Some l"
    using assms by (intro find_by_id_distinct [where P = "\<lambda>x. l_userId x = u \<and> l_articleId x = a"])
      (simp_all add: Like_findOne_def ledger_ok_def)
  show "Like_findOne u a (Like_deleteOne_id (l_id l) s) = None"
    unfolding Like_findOne_def Like_deleteOne_id_def
    using assms
    by (simp add: ledger_ok_def Like_findOne_def
        find_remove_first_none [where h = "\<lambda>l. (l_userId l, l_articleId l)" and p = "(u, a)"])
  show "length (likes (Like_deleteOne_id (l_id l) s)) + 1 = length (likes s)"
    using length_remove_first [OF byid] by (simp add: Like_deleteOne_id_def)
qed

lemma toggle_when_not_liked:
  assumes "ledger_ok s" and "Like_findOne u a s = None"
  shows "\<exists>l s'. Like_toggleLike alone u a s
           = Inr (\<lparr>res_success = True, res_action = Some ''added'', res_like = Some l,
                   res_message = ''Like agregado exitosamente'', res_liked = Some True\<rparr>, s')
         \<and> ledger_ok s' \<and> Like_findOne u a s' \<noteq> None
         \<and> length (likes s') = length (likes s) + 1"
proof -
  obtain l s' where c: "Like_create u a s = Inr (l, s')"
    using Like_create_new [OF assms(2)] by blast
  from Like_create_ledger_ok [OF assms(1) c] c assms(2) show ?thesis
    by (simp add: Like_toggleLike_def alone_def)
qed

lemma toggle_ledger_ok:
  assumes "ledger_ok (env s)" and "Like_toggleLike env u a s = Inr (r, s')"
  shows "ledger_ok s'"
proof (cases "Like_findOne u a s")
  case None
  with assms(2) obtain l where "Like_create u a (env s) = Inr (l, s')"
    by (auto simp: Like_toggleLike_def split: sum.splits)
  with assms(1) show ?thesis by (simp add: Like_create_ledger_ok)
next
  case (Some l)
  with assms(2) have "s' = Like_deleteOne_id (l_id l) (env s)"
    by (simp add: Like_toggleLike_def)
  with assms(1) show ?thesis by (simp add: Like_deleteOne_ledger_ok)
qed

text \<open>
  C4. With the ledger under its two unique indexes and the toggle running alone: when
  the user has a like on the article, the toggle deletes that row and reports
  \<open>liked: false\<close>, after which the user has no like on the article; when there is none,
  it inserts one and reports \<open>liked: true\<close>. Two toggles in sequence both succeed and
  leave the user's liked state as it was. And however other requests interleave, the
  ledger a toggle leaves has no two rows with the same \<open>_id\<close> or the same (user, article)
  pair.
\<close>

theorem identity_bound_toggle:
  assumes "ledger_ok s"
  shows "(Like_userLikedArticle u a s \<longrightarrow>
            (\<exists>r s'. Like_toggleLike alone u a s = Inr (r, s')
               \<and> res_action r = Some ''removed'' \<and> res_liked r = Some False
               \<and> \<not> Like_userLikedArticle u a s'
               \<and> length (likes s') + 1 = length (likes s)))
    \<and> (\<not> Like_userLikedArticle u a s \<longrightarrow>
            (\<exists>r s'. Like_toggleLike alone u a s = Inr (r, s')
               \<and> res_action r = Some ''added'' \<and> res_liked r = Some True
               \<and> Like_userLikedArticle u a s'
               \<and> length (likes s') = length (likes s) + 1))
    \<and> (\<exists>r1 s1 r2 s2. Like_toggleLike alone u a s = Inr (r1, s1)
               \<and> Like_toggleLike alone u a s1 = Inr (r2, s2)
               \<and> res_liked r1 = Some (\<not> Like_userLikedArticle u a s)
               \<and> res_liked r2 = Some (Like_userLikedArticle u a s)
               \<and> Like_userLikedArticle u a s2 = Like_userLikedArticle u a s)
    \<and> (\<forall>env r s'. ledger_ok (env s) \<and> Like_toggleLike env u a s = Inr (r, s') \<longrightarrow> ledger_ok s')"
proof -
  have removes: "\<exists>r s'. Like_toggleLike alone u a t = Inr (r, s')
               \<and> res_action r = Some ''removed'' \<and> res_liked r = Some False
               \<and> \<not> Like_userLikedArticle u a s'
               \<and> length (likes s') + 1 = length (likes t) \<and> ledger_ok s'"
    if "ledger_ok t" and "Like_userLikedArticle u a t" for t
  proof -
    from that(2) obtain l where l: "Like_findOne u a t = Some l"
      by (auto simp: Like_userLikedArticle_def)
    from toggle_when_liked [OF that(1) l] Like_deleteOne_ledger_ok [OF that(1)]
    show ?thesis by (simp add: Like_userLikedArticle_def)
  qed
  have adds: "\<exists>r s'. Like_toggleLike alone u a t = Inr (r, s')
               \<and> res_action r = Some ''added'' \<and> res_liked r = Some True
               \<and> Like_userLikedArticle u a s'
               \<and> length (likes s') = length (likes t) + 1 \<and> ledger_ok s'"
    if "ledger_ok t" and "\<not> Like_userLikedArticle u a t" for t
  proof -
    from that(2) have "Like_findOne u a t = None"
      by (simp add: Like_userLikedArticle_def)
    from toggle_when_not_liked [OF that(1) this]
    show ?thesis by (auto simp: Like_userLikedArticle_def)
  qed
  have twice: "\<exists>r1 s1 r2 s2. Like_toggleLike alone u a s = Inr (r1, s1)
               \<and> Like_toggleLike alone u a s1 = Inr (r2, s2)
               \<and> res_liked r1 = Some (\<not> Like_userLikedArticle u a s)
               \<and> res_liked r2 = Some (Like_userLikedArticle u a s)
               \<and> Like_userLikedArticle u a s2 = Like_userLikedArticle u a s"
  proof (cases "Like_userLikedArticle u a s")
    case True
    from removes [OF assms True] obtain r1 s1 where
      1: "Like_toggleLike alone u a s = Inr (r1, s1)" "res_liked r1 = Some False"
         "\<not> Like_userLikedArticle u a s1" "ledger_ok s1"
      by blast
    from adds [OF 1(4) 1(3)] obtain r2 s2 where
      2: "Like_toggleLike alone u a s1 = Inr (r2, s2)" "res_liked r2 = Some True"
         "Like_userLikedArticle u a s2"
      by blast
    from True 1 2 show ?thesis by auto
  next
    case False
    from adds [OF assms False] obtain r1 s1 where
      1: "Like_toggleLike alone u a s = Inr (r1, s1)" "res_liked r1 = Some True"
         "Like_userLikedArticle u a s1" "ledger_ok s1"
      by blast
    from removes [OF 1(4) 1(3)] obtain r2 s2 where
      2: "Like_toggleLike alone u a s1 = Inr (r2, s2)" "res_liked r2 = Some False"
         "\<not> Like_userLikedArticle u a s2"
      by blast
    from False 1 2 show ?thesis by auto
  qed
  from removes [OF assms] adds [OF assms] twice show ?thesis
    by (blast intro: toggle_ledger_ok)
qed

lemma ex_ledger_ok: "ledger_ok ex_store"
  by (simp add: ledger_ok_def ex_store_def)

lemma ex_liked: "Like_userLikedArticle 1 1 ex_store" "\<not> Like_userLikedArticle 1 2 ex_store"
  by (simp_all add: Like_userLikedArticle_def Like_findOne_def ex_store_def)

theorem identity_bound_toggle_witness:
  "ledger_ok ex_store
   \<and> Like_userLikedArticle 1 1 ex_store
   \<and> (\<exists>r s'. Like_toggleLike alone 1 1 ex_store = Inr (r, s') \<and> res_liked r = Some False
         \<and> \<not> Like_userLikedArticle 1 1 s' \<and> length (likes s') + 1 = length (likes ex_store))
   \<and> \<not> Like_userLikedArticle 1 2 ex_store
   \<and> (\<exists>r s'. Like_toggleLike alone 1 2 ex_store = Inr (r, s') \<and> res_liked r = Some True
         \<and> Like_userLikedArticle 1 2 s' \<and> length (likes s') = length (likes ex_store) + 1)
   \<and> ledger_ok (alone ex_store)
   \<and> (\<exists>r s'. Like_toggleLike alone 1 2 ex_store = Inr (r, s') \<and> ledger_ok s')"
proof -
  have o: "ledger_ok (alone ex_store)"
    using ex_ledger_ok by (simp add: alone_def)
  from identity_bound_toggle [OF ex_ledger_ok, of 1 1] identity_bound_toggle [OF ex_ledger_ok, of 1 2]
    ex_ledger_ok ex_liked o
  show ?thesis
    by blast
qed


subsection \<open>Reading an article counts a view\<close>



subsection \<open>Login does not tell which of the two credentials was wrong\<close>

lemma toLowerCase_ascii [simp]:
  "toLowerCase ''nadie@x.com'' = ''nadie@x.com''"
  "toLowerCase ''ana@x.com'' = ''ana@x.com''"
  "toLowerCase ''bob@x.com'' = ''bob@x.com''"
  by (simp_all add: toLowerCase_def)

text \<open>
  C8. Take two login attempts that pass the input validation: one whose email matches
  no account, one with the email of an active account and a password that does not
  match its hash. Both get the same response (status 401, the same message and the same
  error text), and neither changes the store. An attempt on a disabled account is
  answered 401 as well, with a message different from that of the first two.
\<close>

theorem login_no_account_leak:
  assumes "lr_validation r1 = []" and "lr_validation r2 = []" and "lr_validation r3 = []"
    and "User_findByEmail (lr_email r1) s = None"
    and "User_findByEmail (lr_email r2) s = Some u2"
    and "u_isActive u2" and "\<not> compare (lr_password r2) (u_password u2)"
    and "User_findByEmail (lr_email r3) s = Some u3" and "\<not> u_isActive u3"
  shows "fst (login compare sign now r1 s) = fst (login compare sign now r2 s)
    \<and> status (fst (login compare sign now r1 s)) = 401
    \<and> message (fst (login compare sign now r1 s)) = Some msg_credenciales_invalidas
    \<and> snd (login compare sign now r1 s) = s \<and> snd (login compare sign now r2 s) = s
    \<and> status (fst (login compare sign now r3 s)) = 401
    \<and> message (fst (login compare sign now r3 s)) = Some ''Cuenta desactivada''
    \<and> message (fst (login compare sign now r3 s)) \<noteq> message (fst (login compare sign now r1 s))"
  using assms
  by (simp add: login_def reply_def msg_credenciales_invalidas_def a_acute_def)

theorem login_no_account_leak_witness:
  "User_findByEmail (lr_email (ex_login ''nadie@x.com'' ''secret'')) ex_store = None
   \<and> map_option u_isActive (User_findByEmail (lr_email (ex_login ''ana@x.com'' ''wrong'')) ex_store)
       = Some True
   \<and> \<not> ex_compare ''wrong'' ''terces''
   \<and> map_option u_isActive (User_findByEmail (lr_email (ex_login ''bob@x.com'' ''drowssap'')) ex_store)
       = Some False
   \<and> fst (login ex_compare ex_sign 5 (ex_login ''nadie@x.com'' ''secret'') ex_store)
       = fst (login ex_compare ex_sign 5 (ex_login ''ana@x.com'' ''wrong'') ex_store)
   \<and> status (fst (login ex_compare ex_sign 5 (ex_login ''nadie@x.com'' ''secret'') ex_store)) = 401
   \<and> message (fst (login ex_compare ex_sign 5 (ex_login ''bob@x.com'' ''drowssap'') ex_store))
       = Some ''Cuenta desactivada''"
proof -
  let ?u2 = ex_ana
  let ?u3 = ex_bob
  have h1: "User_findByEmail (lr_email (ex_login ''nadie@x.com'' ''secret'')) ex_store = None"
    by (simp add: User_findByEmail_def ex_store_def ex_login_def ex_ana_def ex_bob_def)
  have h2: "User_findByEmail (lr_email (ex_login ''ana@x.com'' ''wrong'')) ex_store = Some ?u2"
    by (simp add: User_findByEmail_def ex_store_def ex_login_def ex_ana_def ex_bob_def)
  have h3: "User_findByEmail (lr_email (ex_login ''bob@x.com'' ''drowssap'')) ex_store = Some ?u3"
    by (simp add: User_findByEmail_def ex_store_def ex_login_def ex_ana_def ex_bob_def)
  have h4: "\<not> ex_compare ''wrong'' ''terces''"
    by (simp add: ex_compare_def)
  have h4': "\<not> ex_compare (lr_password (ex_login ''ana@x.com'' ''wrong'')) (u_password ?u2)"
    using h4 by (simp add: ex_login_def ex_ana_def)
  have v: "lr_validation (ex_login e p) = []" for e p
    by (simp add: ex_login_def)
  have a2: "u_isActive ?u2" and a3: "\<not> u_isActive ?u3"
    by (simp_all add: ex_ana_def ex_bob_def)
  note main = login_no_account_leak
         [of "ex_login ''nadie@x.com'' ''secret''" "ex_login ''ana@x.com'' ''wrong''"
             "ex_login ''bob@x.com'' ''drowssap''" ex_store ?u2 ex_compare ?u3 ex_sign 5,
          OF v v v h1 h2 a2 h4' h3 a3]
  have i2: "map_option u_isActive (User_findByEmail (lr_email (ex_login ''ana@x.com'' ''wrong'')) ex_store)
       = Some True"
    by (simp add: h2 ex_ana_def)
  have i3: "map_option u_isActive (User_findByEmail (lr_email (ex_login ''bob@x.com'' ''drowssap'')) ex_store)
       = Some False"
    by (simp add: h3 ex_bob_def)
  from main h1 i2 h4 i3 show ?thesis
    by blast
qed

subsection \<open>An action that is neither increment nor decrement\<close>

lemma lookup_early_fails:
  "toggleLike_lookup slug s = Inl r \<Longrightarrow> \<not> success r \<and> (status r = 404 \<or> status r = 400)"
  by (auto simp: toggleLike_lookup_def reply_def Let_def split: if_splits option.splits)

lemma lookup_published:
  "\<not> isObjectId (trim slug) \<Longrightarrow> Article_findOne_published (trim slug) s = Some a \<Longrightarrow>
   toggleLike_lookup slug s = Inr a"
  by (simp add: toggleLike_lookup_def)

text \<open>
  C6. A request to either anonymous like endpoint whose \<open>action\<close> is present and is
  neither \<open>'increment'\<close> nor \<open>'decrement'\<close> never succeeds and leaves the store as it
  was. It is answered 400 with the invalid-action message whenever the lookup that runs
  first finds the target: for an article, in particular when the parameter is not
  shaped like an ObjectId and names a published article; for a comment, when the comment
  exists and is approved. When the lookup itself answers, that response is returned:
  404 or 400 for an article, 404 for a missing comment, 403 for a comment that is not
  approved.
\<close>

theorem invalid_action_rejected:
  assumes "v \<noteq> JString ''increment''" and "v \<noteq> JString ''decrement''"
  shows "snd (articleController_toggleLike \<lparr>alr_slug = slug, alr_action = Some v\<rparr> s) = s
    \<and> \<not> success (fst (articleController_toggleLike \<lparr>alr_slug = slug, alr_action = Some v\<rparr> s))
    \<and> (\<forall>a. \<not> isObjectId (trim slug) \<and> Article_findOne_published (trim slug) s = Some a \<longrightarrow>
          fst (articleController_toggleLike \<lparr>alr_slug = slug, alr_action = Some v\<rparr> s)
            = reply 400 False msg_accion_invalida)
    \<and> (\<forall>a. toggleLike_lookup slug s = Inr a \<longrightarrow>
          fst (articleController_toggleLike \<lparr>alr_slug = slug, alr_action = Some v\<rparr> s)
            = reply 400 False msg_accion_invalida)
    \<and> (\<forall>r. toggleLike_lookup slug s = Inl r \<longrightarrow>
          fst (articleController_toggleLike \<lparr>alr_slug = slug, alr_action = Some v\<rparr> s) = r
          \<and> (status r = 404 \<or> status r = 400))
    \<and> snd (toggleCommentLike \<lparr>clr_commentId = i, clr_action = Some v\<rparr> s) = s
    \<and> \<not> success (fst (toggleCommentLike \<lparr>clr_commentId = i, clr_action = Some v\<rparr> s))
    \<and> (\<forall>c. Comment_findById i s = Some c \<and> c_isApproved c \<longrightarrow>
          fst (toggleCommentLike \<lparr>clr_commentId = i, clr_action = Some v\<rparr> s)
            = reply 400 False msg_accion_invalida)
    \<and> (\<forall>c. Comment_findById i s = Some c \<and> \<not> c_isApproved c \<longrightarrow>
          status (fst (toggleCommentLike \<lparr>clr_commentId = i, clr_action = Some v\<rparr> s)) = 403)
    \<and> (Comment_findById i s = None \<longrightarrow>
          status (fst (toggleCommentLike \<lparr>clr_commentId = i, clr_action = Some v\<rparr> s)) = 404)"
proof -
  let ?ra = "articleController_toggleLike \<lparr>alr_slug = slug, alr_action = Some v\<rparr> s"
  let ?rc = "toggleCommentLike \<lparr>clr_commentId = i, clr_action = Some v\<rparr> s"
  have a: "?ra = (case toggleLike_lookup slug s of
                    Inl r \<Rightarrow> (r, s) | Inr a \<Rightarrow> (reply 400 False msg_accion_invalida, s))"
    using assms by (simp add: articleController_toggleLike_def split: sum.splits)
  have c: "?rc = (case Comment_findById i s of
                    None \<Rightarrow> (reply 404 False ''Comentario no encontrado'', s)
                  | Some c \<Rightarrow>
                      if \<not> c_isApproved c
                      then (reply 403 False ''No se puede dar like a un comentario no aprobado'', s)
                      else (reply 400 False msg_accion_invalida, s))"
    using assms by (simp add: toggleCommentLike_def split: option.splits)
  have 1: "snd ?ra = s" and 2: "\<not> success (fst ?ra)"
    unfolding a by (auto simp: reply_def split: sum.splits dest: lookup_early_fails)
  have 3: "fst ?ra = reply 400 False msg_accion_invalida"
    if "\<not> isObjectId (trim slug) \<and> Article_findOne_published (trim slug) s = Some x" for x
    unfolding a using that by (simp add: lookup_published)
  have found: "fst ?ra = reply 400 False msg_accion_invalida"
    if "toggleLike_lookup slug s = Inr x" for x
    unfolding a using that by simp
  have 4: "fst ?ra = r \<and> (status r = 404 \<or> status r = 400)"
    if "toggleLike_lookup slug s = Inl r" for r
    unfolding a using that lookup_early_fails [OF that] by simp
  have 5: "snd ?rc = s" and 6: "\<not> success (fst ?rc)"
    unfolding c by (auto simp: reply_def split: option.splits)
  have 7: "fst ?rc = reply 400 False msg_accion_invalida"
    if "Comment_findById i s = Some x \<and> c_isApproved x" for x
    unfolding c using that by simp
  have 8: "status (fst ?rc) = 403" if "Comment_findById i s = Some x \<and> \<not> c_isApproved x" for x
    unfolding c using that by (simp add: reply_def)
  have 9: "status (fst ?rc) = 404" if "Comment_findById i s = None"
    unfolding c using that by (simp add: reply_def)
  from 1 2 3 found 4 5 6 7 8 9 show ?thesis by blast
qed

lemma ex_findById_comment2: "Comment_findById 2 ex_store = Some ex_comment2"
  by (simp add: Comment_findById_def ex_store_def ex_comment1_def ex_comment2_def)

lemma ex_approved: "c_isApproved ex_comment1" "\<not> c_isApproved ex_comment2"
  by (simp_all add: ex_comment1_def ex_comment2_def)

lemma ex_published_otro:
  "\<not> isObjectId (trim ''otro'')" "Article_findOne_published (trim ''otro'') ex_store = Some ex_article2"
  by (simp_all add: trim_def isWhiteSpace_def isObjectId_def Article_findOne_published_def
      ex_store_def ex_article1_def ex_article2_def)

theorem invalid_action_rejected_witness:
  "JString ''like'' \<noteq> JString ''increment'' \<and> JString ''like'' \<noteq> JString ''decrement''
   \<and> \<not> isObjectId (trim ''otro'') \<and> Article_findOne_published (trim ''otro'') ex_store = Some ex_article2
   \<and> fst (articleController_toggleLike \<lparr>alr_slug = ''otro'', alr_action = Some (JString ''like'')\<rparr> ex_store)
       = reply 400 False msg_accion_invalida
   \<and> snd (articleController_toggleLike \<lparr>alr_slug = ''otro'', alr_action = Some (JString ''like'')\<rparr> ex_store)
       = ex_store
   \<and> Comment_findById 1 ex_store = Some ex_comment1 \<and> c_isApproved ex_comment1
   \<and> fst (toggleCommentLike \<lparr>clr_commentId = 1, clr_action = Some (JString ''like'')\<rparr> ex_store)
       = reply 400 False msg_accion_invalida
   \<and> snd (toggleCommentLike \<lparr>clr_commentId = 1, clr_action = Some (JString ''like'')\<rparr> ex_store)
       = ex_store"
proof -
  have n: "JString ''like'' \<noteq> JString ''increment''" "JString ''like'' \<noteq> JString ''decrement''"
    by simp_all
  from invalid_action_rejected [OF n, of "''otro''" ex_store 1]
    n ex_published_otro ex_findById_comment1 ex_approved(1)
  show ?thesis by blast
qed

theorem invalid_action_counterexample:
  "JString ''like'' \<noteq> JString ''increment'' \<and> JString ''like'' \<noteq> JString ''decrement''
   \<and> status (fst (toggleCommentLike \<lparr>clr_commentId = 2, clr_action = Some (JString ''like'')\<rparr> ex_store))
       = 403
   \<and> status (fst (toggleCommentLike \<lparr>clr_commentId = 2, clr_action = Some (JString ''like'')\<rparr> ex_store))
       \<noteq> 400
   \<and> status (fst (articleController_toggleLike
                    \<lparr>alr_slug = ''no-such-slug'', alr_action = Some (JString ''like'')\<rparr> ex_store))
       = 404"
proof -
  have c: "status (fst (toggleCommentLike \<lparr>clr_commentId = 2, clr_action = Some (JString ''like'')\<rparr> ex_store))
       = 403"
    by (simp add: toggleCommentLike_def ex_findById_comment2 ex_approved reply_def)
  have "toggleLike_lookup ''no-such-slug'' ex_store = Inl (reply 404 False msg_articulo_no_encontrado)"
    by (simp add: toggleLike_lookup_def trim_def isWhiteSpace_def isObjectId_def
        Article_findOne_published_def Article_findOne_slug_def ex_store_def ex_article1_def
        ex_article2_def)
  then have a: "status (fst (articleController_toggleLike
                    \<lparr>alr_slug = ''no-such-slug'', alr_action = Some (JString ''like'')\<rparr> ex_store))
       = 404"
    by (simp add: articleController_toggleLike_def reply_def)
  from c a show ?thesis by simp
qed


subsection \<open>A request without an action\<close>









subsection \<open>A reply needs an approved parent in the same article\<close>

text \<open>
  C7. Take a create-comment request that carries a \<open>parentCommentId\<close> which refers to no
  approved comment of the article the slug resolves to: the value does not cast to an
  identifier, or it does and there is no comment with that identifier, or the comment is
  not approved, or it is a comment of another article. The request is refused and the
  store is left as it was: no comment is created. The status is 400 when the content is
  missing or empty; otherwise 404 when the slug resolves to no published article;
  otherwise 500 when the value does not cast, and 404 when it does. When the content is
  present, the slug resolves and the value casts, the response is that of the missing
  parent.
\<close>

theorem reply_to_bad_parent_rejected:
  assumes p: "cr_parentCommentId req = Some p"
    and bad: "\<forall>a i c. Article_findOne_published (cr_slug req) s = Some a \<and> p = WellFormed i
                \<and> c \<in> set (comments s) \<and> c_id c = i \<longrightarrow>
                \<not> c_isApproved c \<or> c_articleId c \<noteq> a_id a"
  shows "snd (addComment req s) = s
    \<and> \<not> success (fst (addComment req s))
    \<and> status (fst (addComment req s))
        = (if \<not> truthy (cr_content req) then 400
           else if Article_findOne_published (cr_slug req) s = None then 404
           else if p = Malformed then 500
           else 404)
    \<and> (truthy (cr_content req) \<and> Article_findOne_published (cr_slug req) s \<noteq> None
         \<and> p \<noteq> Malformed \<longrightarrow>
          fst (addComment req s) = reply 404 False ''Comentario padre no encontrado'')"
proof (cases "truthy (cr_content req)")
  case False
  then show ?thesis
    by (auto simp: addComment_def truthy_def reply_def split: option.splits)
next
  case True
  then obtain content where c: "cr_content req = Some content" "content \<noteq> []"
    by (auto simp: truthy_def split: option.splits)
  show ?thesis
  proof (cases "Article_findOne_published (cr_slug req) s")
    case None
    with c True show ?thesis by (simp add: addComment_def reply_def)
  next
    case (Some a)
    show ?thesis
    proof (cases p)
      case Malformed
      then have "Comment_findOne_parent p (a_id a) s = Inl CastError"
        by (simp add: Comment_findOne_parent_def castObjectId_def)
      with c True Some p Malformed show ?thesis
        by (simp add: addComment_def internal_error_def reply_def)
    next
      case (WellFormed i)
      have "find (\<lambda>c. c_id c = i \<and> c_articleId c = a_id a \<and> c_isApproved c) (comments s) = None"
        unfolding find_None_iff using bad Some WellFormed by blast
      with WellFormed have "Comment_findOne_parent p (a_id a) s = Inr None"
        by (simp add: Comment_findOne_parent_def castObjectId_def)
      with c True Some p WellFormed show ?thesis
        by (simp add: addComment_def reply_def)
    qed
  qed
qed

lemma ex_comments: "set (comments ex_store) = {ex_comment1, ex_comment2}"
  by (auto simp: ex_store_def)

lemma ex_comment_ids: "c_id ex_comment1 = 1" "c_id ex_comment2 = 2" "c_articleId ex_comment2 = 2"
  "a_id ex_article1 = 1"
  by (simp_all add: ex_comment1_def ex_comment2_def ex_article1_def)

theorem reply_to_bad_parent_rejected_witness:
  "Article_findOne_published ''test-slug'' ex_store = Some ex_article1
   \<and> Comment_findById 2 ex_store = Some ex_comment2 \<and> \<not> c_isApproved ex_comment2
   \<and> c_articleId ex_comment2 \<noteq> a_id ex_article1
   \<and> fst (addComment (ex_reply (Some ''Una respuesta amable'') (WellFormed 2)) ex_store)
       = reply 404 False ''Comentario padre no encontrado''
   \<and> snd (addComment (ex_reply (Some ''Una respuesta amable'') (WellFormed 2)) ex_store) = ex_store
   \<and> Comment_findById 7 ex_store = None
   \<and> status (fst (addComment (ex_reply (Some ''Una respuesta amable'') (WellFormed 7)) ex_store)) = 404
   \<and> snd (addComment (ex_reply (Some ''Una respuesta amable'') (WellFormed 7)) ex_store) = ex_store
   \<and> status (fst (addComment (ex_reply (Some ''Una respuesta amable'') Malformed) ex_store)) = 500
   \<and> snd (addComment (ex_reply (Some ''Una respuesta amable'') Malformed) ex_store) = ex_store"
proof -
  have s: "cr_slug (ex_reply c q) = ''test-slug''" "cr_parentCommentId (ex_reply c q) = Some q"
    "cr_content (ex_reply c q) = c" for c q
    by (simp_all add: ex_reply_def)
  have t: "truthy (Some ''Una respuesta amable'')"
    by (simp add: truthy_def)
  have b2: "\<forall>a i c. Article_findOne_published (cr_slug (ex_reply x (WellFormed 2))) ex_store = Some a
              \<and> WellFormed 2 = WellFormed i \<and> c \<in> set (comments ex_store) \<and> c_id c = i \<longrightarrow>
              \<not> c_isApproved c \<or> c_articleId c \<noteq> a_id a" for x
    by (auto simp: ex_comments ex_comment_ids ex_approved)
  have b7: "\<forall>a i c. Article_findOne_published (cr_slug (ex_reply x (WellFormed 7))) ex_store = Some a
              \<and> WellFormed 7 = WellFormed i \<and> c \<in> set (comments ex_store) \<and> c_id c = i \<longrightarrow>
              \<not> c_isApproved c \<or> c_articleId c \<noteq> a_id a" for x
    by (auto simp: ex_comments ex_comment_ids)
  have bm: "\<forall>a i c. Article_findOne_published (cr_slug (ex_reply x Malformed)) ex_store = Some a
              \<and> Malformed = WellFormed i \<and> c \<in> set (comments ex_store) \<and> c_id c = i \<longrightarrow>
              \<not> c_isApproved c \<or> c_articleId c \<noteq> a_id a" for x
    by simp
  have n7: "Comment_findById 7 ex_store = None"
    by (simp add: Comment_findById_def ex_store_def ex_comment_ids)
  have d: "c_articleId ex_comment2 \<noteq> a_id ex_article1"
    by (simp add: ex_comment_ids)
  have f: "Article_findOne_published ''test-slug'' ex_store \<noteq> None"
    by (simp add: ex_findOne_test_slug)
  have w: "WellFormed 2 \<noteq> Malformed" "WellFormed 7 \<noteq> Malformed"
    by simp_all
  note w2 = reply_to_bad_parent_rejected
      [of "ex_reply (Some ''Una respuesta amable'') (WellFormed 2)" "WellFormed 2" ex_store,
       OF s(2) b2, unfolded s]
  note w7 = reply_to_bad_parent_rejected
      [of "ex_reply (Some ''Una respuesta amable'') (WellFormed 7)" "WellFormed 7" ex_store,
       OF s(2) b7, unfolded s]
  note wm = reply_to_bad_parent_rejected
      [of "ex_reply (Some ''Una respuesta amable'') Malformed" Malformed ex_store,
       OF s(2) bm, unfolded s]
  from w2 t f w have r2:
    "fst (addComment (ex_reply (Some ''Una respuesta amable'') (WellFormed 2)) ex_store)
       = reply 404 False ''Comentario padre no encontrado''"
    "snd (addComment (ex_reply (Some ''Una respuesta amable'') (WellFormed 2)) ex_store) = ex_store"
    by blast+
  have st7: "(if \<not> truthy (Some ''Una respuesta amable'') then 400
              else if Article_findOne_published ''test-slug'' ex_store = None then 404
              else if WellFormed 7 = Malformed then 500
              else 404) = (404::nat)"
    using t f by simp
  have stm: "(if \<not> truthy (Some ''Una respuesta amable'') then 400
              else if Article_findOne_published ''test-slug'' ex_store = None then 404
              else if Malformed = Malformed then 500
              else 404) = (500::nat)"
    using t f by simp
  from w7 [unfolded st7] have r7:
    "status (fst (addComment (ex_reply (Some ''Una respuesta amable'') (WellFormed 7)) ex_store)) = 404"
    "snd (addComment (ex_reply (Some ''Una respuesta amable'') (WellFormed 7)) ex_store) = ex_store"
    by blast+
  from wm [unfolded stm] have rm:
    "status (fst (addComment (ex_reply (Some ''Una respuesta amable'') Malformed) ex_store)) = 500"
    "snd (addComment (ex_reply (Some ''Una respuesta amable'') Malformed) ex_store) = ex_store"
    by blast+
  from r2 r7 rm ex_findOne_test_slug ex_findById_comment2 ex_approved(2) n7 d
  show ?thesis
    by blast
qed

theorem reply_to_bad_parent_counterexample:
  "cr_parentCommentId (ex_reply None (WellFormed 7)) = Some (WellFormed 7)
   \<and> Comment_findById 7 ex_store = None
   \<and> status (fst (addComment (ex_reply None (WellFormed 7)) ex_store)) = 400
   \<and> status (fst (addComment (ex_reply None (WellFormed 7)) ex_store)) \<noteq> 404
   \<and> message (fst (addComment (ex_reply None (WellFormed 7)) ex_store))
       = Some ''El contenido del comentario es obligatorio''
   \<and> cr_parentCommentId (ex_reply (Some ''Una respuesta amable'') Malformed) = Some Malformed
   \<and> status (fst (addComment (ex_reply (Some ''Una respuesta amable'') Malformed) ex_store)) = 500
   \<and> message (fst (addComment (ex_reply (Some ''Una respuesta amable'') Malformed) ex_store))
       = Some ''Error interno del servidor''"
proof -
  have n: "Comment_findById 7 ex_store = None"
    by (simp add: Comment_findById_def ex_store_def ex_comment_ids)
  have a: "addComment (ex_reply None (WellFormed 7)) ex_store
           = (reply 400 False ''El contenido del comentario es obligatorio'', ex_store)"
    by (simp add: addComment_def ex_reply_def)
  have m: "addComment (ex_reply (Some ''Una respuesta amable'') Malformed) ex_store
           = (internal_error, ex_store)"
    by (simp add: addComment_def ex_reply_def ex_findOne_test_slug Comment_findOne_parent_def
        castObjectId_def)
  have p: "cr_parentCommentId (ex_reply c q) = Some q" for c q
    by (simp add: ex_reply_def)
  from n show ?thesis
    by (simp add: a m p internal_error_def reply_def)
qed

subsection \<open>Concurrent increments of a like counter\<close>

text \<open>
  C2. The like counter of an article is changed by one \<open>$inc\<close> on the stored document;
  the like counter of a comment is changed by saving the value computed from the
  document in memory. At the example store, where comment 1 has 0 likes and article 1
  has 0 likes: of two increments of comment 1 whose reads both precede the writes only
  one is kept, while both increments of article 1 are kept. And two such decrements of
  an article with one like, each deciding on the count it read, take the counter to -1.
\<close>

theorem comment_like_lost_update:
  "comment_likes 1 ex_store = Some 0
   \<and> map_option (comment_likes 1) (racing_comment_likes 1 ex_store) = Some (Some 1)
   \<and> article_likes 1 ex_store = Some 0
   \<and> map_option (article_likes 1) (racing_article_likes 1 ex_store) = Some (Some 2)
   \<and> map_option (article_likes 1) (racing_article_unlikes 1 (bump 1 1 ex_store)) = Some (Some (- 1))"
proof -
  have c0: "c_likesCount ex_comment1 = 0" and a0: "a_likesCount ex_article1 = 0"
    and lt: "c_likesCount ex_comment1 < 2 ^ 53"
    by (simp_all add: ex_comment1_def ex_article1_def)
  from racing_comment_likes_loses_one [OF ex_findById_comment1 ex_comment1_valid lt] c0
  have 1: "map_option (comment_likes 1) (racing_comment_likes 1 ex_store) = Some (Some 1)"
    by auto
  from racing_article_likes_keeps_both [OF ex_findById_article1] a0
  have 2: "map_option (article_likes 1) (racing_article_likes 1 ex_store) = Some (Some 2)"
    by auto
  from 1 2 ex_racing_unlikes(2) ex_comment_likes ex_article_likes show ?thesis by simp
qed
subsection \<open>A duplicate key on inserting a like\<close>

text \<open>
  When the insertion is refused with the duplicate-key error, \<open>addLike\<close> catches it and
  answers as if it had found the like; \<open>toggleLike\<close> has no handler and the error
  reaches its caller.
\<close>

lemma addLike_absorbs_duplicate_key:
  assumes "Like_findOne u a s = None" and "Like_create u a (env s) = Inl (MongoServerError 11000)"
  shows "Like_addLike env u a s
         = Inr (\<lparr>res_success = False, res_action = None, res_like = None,
                 res_message = msg_ya_diste_like, res_liked = None\<rparr>, env s)"
  using assms by (simp add: Like_addLike_def)

lemma toggleLike_raises_duplicate_key:
  assumes "Like_findOne u a s = None" and "Like_create u a (env s) = Inl e"
  shows "Like_toggleLike env u a s = Inl e"
  using assms by (simp add: Like_toggleLike_def)

lemma ex_concurrent_like:
  "Like_findOne 1 2 (concurrent_like 1 2 ex_store) \<noteq> None"
proof -
  have "Like_findOne 1 2 ex_store = None"
    using ex_liked(2) by (simp add: Like_userLikedArticle_def)
  then obtain l s' where c: "Like_create 1 2 ex_store = Inr (l, s')"
    using Like_create_new by blast
  from Like_create_ledger_ok [OF ex_ledger_ok c] c show ?thesis
    by (simp add: concurrent_like_def)
qed

text \<open>
  C5. At the example store user 1 has no like on article 2. While a call for that pair
  waits between its read and its insertion, another request inserts the like, and the
  store refuses the call's insertion with error 11000. \<open>addLike\<close> resolves, with the
  message of a like that already exists and without changing the store;
  \<open>toggleLike\<close> is rejected with the error.
\<close>

theorem toggleLike_duplicate_key_surfaces:
  "Like_findOne 1 2 ex_store = None
   \<and> Like_create 1 2 (concurrent_like 1 2 ex_store) = Inl (MongoServerError 11000)
   \<and> Like_addLike (concurrent_like 1 2) 1 2 ex_store
       = Inr (\<lparr>res_success = False, res_action = None, res_like = None,
               res_message = msg_ya_diste_like, res_liked = None\<rparr>, concurrent_like 1 2 ex_store)
   \<and> Like_toggleLike (concurrent_like 1 2) 1 2 ex_store = Inl (MongoServerError 11000)"
proof -
  have n: "Like_findOne 1 2 ex_store = None"
    using ex_liked(2) by (simp add: Like_userLikedArticle_def)
  have d: "Like_create 1 2 (concurrent_like 1 2 ex_store) = Inl (MongoServerError 11000)"
    using ex_concurrent_like by (rule Like_create_duplicate)
  from n d addLike_absorbs_duplicate_key [of 1 2 ex_store "concurrent_like 1 2", OF n d]
    toggleLike_raises_duplicate_key [of 1 2 ex_store "concurrent_like 1 2", OF n d]
  show ?thesis by simp
qed


subsection \<open>The comment counter of an article\<close>

lemma ex_email: "matches emailRegex ''Eva@x.com''" "matches emailRegex ''eva@x.com''"
  by code_simp+

lemma ex_strings:
  "trim ''Eva'' = ''Eva''" "trim (toLowerCase ''Eva@x.com'') = ''eva@x.com''"
  "toLowerCase (trim ''eva@x.com'') = ''eva@x.com''"
  "trim ''Un segundo comentario'' = ''Un segundo comentario''"
  by code_simp+

text \<open>
  The post-save hook and the post-delete hook leave the store as it is: \<open>commentsCount\<close>
  is not a path of the article schema, so the update they send has nothing left to set.
  No comment write changes an article. With the path declared, or with strict mode off,
  the same update would pass the cast and store the count.
\<close>

lemma declared_path_would_be_stored:
  "castUpdate False articleSchema_paths (Set ''commentsCount'' v) = Some (Set ''commentsCount'' v)"
  "castUpdate True (''commentsCount'' # articleSchema_paths) (Set ''commentsCount'' v)
     = Some (Set ''commentsCount'' v)"
  "a_commentsCount (apply_update (Set ''commentsCount'' v) a) = Some v"
  by (simp_all add: castUpdate_def)

lemma Comment_post_findOneAndDelete_noop: "Comment_post_findOneAndDelete doc s = s"
  by (simp add: Comment_post_findOneAndDelete_def findByIdAndUpdate_commentsCount
      split: option.splits)

lemma Comment_save_articles:
  "Comment_save modified this s = Inr (this', s') \<Longrightarrow> articles s' = articles s"
  by (auto simp: Comment_save_def Comment_post_save_noop Let_def
      split: if_splits option.splits list.splits)

lemma addComment_create_articles:
  "articles (snd (addComment_create req article content parent s)) = articles s"
  by (auto simp: addComment_create_def Comment_save_new_def Comment_post_save_noop Let_def
      split: sum.splits list.splits error.splits)

lemma comment_writes_leave_articles:
  "articles (snd (addComment req s)) = articles s"
  "articles (snd (moderateComment mreq s)) = articles s"
  "articles (snd (toggleCommentLike lreq s)) = articles s"
  "articles (snd (Comment_findByIdAndDelete i s)) = articles s"
proof -
  show "articles (snd (addComment req s)) = articles s"
    by (auto simp: addComment_def addComment_create_articles split: option.splits sum.splits)
  show "articles (snd (moderateComment mreq s)) = articles s"
    by (auto simp: moderateComment_def Comment_approve_def Comment_disapprove_def
        split: option.splits sum.splits dest: Comment_save_articles)
  show "articles (snd (toggleCommentLike lreq s)) = articles s"
    by (auto simp: toggleCommentLike_def Comment_incrementLikes_def Comment_decrementLikes_def
        Let_def split: option.splits sum.splits if_splits dest: Comment_save_articles)
  show "articles (snd (Comment_findByIdAndDelete i s)) = articles s"
    by (simp add: Comment_findByIdAndDelete_def Comment_post_findOneAndDelete_noop Let_def)
qed

text \<open>
  C1. At the example store article 1 has one approved comment and its stored document
  carries no \<open>commentsCount\<close>. An anonymous comment on it is created (201), after which
  the article has two approved comments; the hook has run, and the stored document
  still carries no \<open>commentsCount\<close>.
\<close>

theorem commentsCount_not_stored:
  "Comment_countDocuments 1 ex_store = 1
   \<and> map_option a_commentsCount (Article_findById 1 ex_store) = Some None
   \<and> status (fst (addComment ex_new_comment ex_store)) = 201
   \<and> Comment_countDocuments 1 (snd (addComment ex_new_comment ex_store)) = 2
   \<and> map_option a_commentsCount (Article_findById 1 (snd (addComment ex_new_comment ex_store)))
       = Some None"
proof -
  have c1: "Comment_countDocuments 1 ex_store = 1"
    by (simp add: Comment_countDocuments_def ex_store_def ex_comment1_def ex_comment2_def)
  have a1: "map_option a_commentsCount (Article_findById 1 ex_store) = Some None"
    using ex_findById_article1 by (simp add: ex_article1_def)
  have id: "addComment_identity ex_new_comment = Inr (None, ''Eva'', ''eva@x.com'')"
    by (simp add: addComment_identity_def ex_new_comment_def truthy_def ex_email ex_strings)
  have v: "Comment_validate (new_Comment 1 ''Un segundo comentario'' None None ''Eva'' ''eva@x.com'') = []"
    by (simp add: Comment_validate_def new_Comment_def ex_email ex_strings)
  have r: "addComment ex_new_comment ex_store
           = ((reply 201 True ''Comentario agregado exitosamente'')
                \<lparr>data := Some (CommentCreated
                   ((new_Comment 1 ''Un segundo comentario'' None None ''Eva'' ''eva@x.com'')
                      \<lparr>c_id := new_ObjectId (map c_id (comments ex_store))\<rparr>))\<rparr>,
              ex_store\<lparr>comments := comments ex_store
                 @ [(new_Comment 1 ''Un segundo comentario'' None None ''Eva'' ''eva@x.com'')
                      \<lparr>c_id := new_ObjectId (map c_id (comments ex_store))\<rparr>]\<rparr>)"
  proof -
    have f: "cr_slug ex_new_comment = ''test-slug''"
      "cr_content ex_new_comment = Some ''Un segundo comentario''"
      "cr_parentCommentId ex_new_comment = None"
      by (simp_all add: ex_new_comment_def)
    have i: "a_id ex_article1 = 1"
      by (simp add: ex_article1_def)
    have sv: "Comment_save_new
                (new_Comment 1 ''Un segundo comentario'' None None ''Eva'' ''eva@x.com'') ex_store
              = Inr ((new_Comment 1 ''Un segundo comentario'' None None ''Eva'' ''eva@x.com'')
                       \<lparr>c_id := new_ObjectId (map c_id (comments ex_store))\<rparr>,
                     ex_store\<lparr>comments := comments ex_store
                       @ [(new_Comment 1 ''Un segundo comentario'' None None ''Eva'' ''eva@x.com'')
                            \<lparr>c_id := new_ObjectId (map c_id (comments ex_store))\<rparr>]\<rparr>)"
      by (simp only: Comment_save_new_def v Comment_post_save_noop Let_def list.case)
    show ?thesis
      by (simp only: addComment_def addComment_create_def f ex_findOne_test_slug id sv i
          option.case list.simps if_False sum.case prod.case simp_thms)
  qed
  have 3: "status (fst (addComment ex_new_comment ex_store)) = 201"
    by (simp add: r reply_def)
  have 4: "Comment_countDocuments 1 (snd (addComment ex_new_comment ex_store)) = 2"
    using c1 by (simp add: r Comment_countDocuments_def new_Comment_def)
  have 5: "map_option a_commentsCount (Article_findById 1 (snd (addComment ex_new_comment ex_store)))
       = Some None"
    using a1 by (simp add: Article_findById_def comment_writes_leave_articles)
  from c1 a1 3 4 5 show ?thesis by simp
qed

end
